theory Spec2Isabelle
  imports Complex_Main
begin

section \<open>maho: aircraft entities (maho/adsb.py)\<close>

text \<open>
  In the entity, the reader, the camera and the tracker, Python floats are modelled as the
  real numbers: every arithmetic operation is exact. The geodesy rounds, see there.
  Times are seconds on one axis: \<open>datetime.datetime.utcnow()\<close> and \<open>time.time()\<close>
  are both passed in as reals.
\<close>

datatype error = ValueError | TypeError | AttributeError | ZeroDivisionError | RuntimeError

text \<open>
  The attributes an \<open>Aircraft\<close> object holds. The field \<open>a_x\<close> is the Python
  attribute \<open>self._x\<close>; Python's \<open>None\<close> is \<open>None\<close>. A fragment slot holds
  \<open>None\<close> or the pair \<open>(value, time.time())\<close> its setter builds.
\<close>

record Aircraft =
  a_icao :: string
  a_callsign :: "string option"
  a_altitude :: "real option"
  a_position :: "(real \<times> real) option"
  a_speed :: "int option"
  a_heading :: "int option"
  a_last_update :: real
  a_position_even :: "(string \<times> real) option"
  a_position_odd :: "(string \<times> real) option"

subsection \<open>Property getters\<close>

definition icao :: "Aircraft \<Rightarrow> string" where
  "icao a = a_icao a"

definition callsign :: "Aircraft \<Rightarrow> string option" where
  "callsign a = a_callsign a"

text \<open>\<open>return self._altitude * 0.3048\<close>: multiplying \<open>None\<close> raises TypeError.\<close>

definition altitude :: "Aircraft \<Rightarrow> error + real option" where
  "altitude a =
     (case a_altitude a of
        None \<Rightarrow> Inl TypeError
      | Some ft \<Rightarrow> Inr (Some (ft * 0.3048)))"

definition speed :: "Aircraft \<Rightarrow> int option" where
  "speed a = a_speed a"

definition heading :: "Aircraft \<Rightarrow> int option" where
  "heading a = a_heading a"

definition position :: "Aircraft \<Rightarrow> (real \<times> real) option" where
  "position a = a_position a"

definition position_even :: "Aircraft \<Rightarrow> (string \<times> real) option" where
  "position_even a = a_position_even a"

definition position_odd :: "Aircraft \<Rightarrow> (string \<times> real) option" where
  "position_odd a = a_position_odd a"

text \<open>\<open>(datetime.datetime.utcnow() - self._last_update).total_seconds()\<close>\<close>

definition age :: "real \<Rightarrow> Aircraft \<Rightarrow> real" where
  "age now a = now - a_last_update a"

subsection \<open>Property setters\<close>

text \<open>Each setter takes the assigned value, the clock reading it makes (if any) and the object.\<close>

definition icao_setter :: "string \<Rightarrow> real \<Rightarrow> Aircraft \<Rightarrow> Aircraft" where
  "icao_setter v now a = a\<lparr>a_icao := v, a_last_update := now\<rparr>"

definition callsign_setter :: "string option \<Rightarrow> real \<Rightarrow> Aircraft \<Rightarrow> Aircraft" where
  "callsign_setter v now a = a\<lparr>a_callsign := v, a_last_update := now\<rparr>"

definition altitude_setter :: "real option \<Rightarrow> real \<Rightarrow> Aircraft \<Rightarrow> Aircraft" where
  "altitude_setter v now a = a\<lparr>a_altitude := v, a_last_update := now\<rparr>"

definition speed_setter :: "int option \<Rightarrow> real \<Rightarrow> Aircraft \<Rightarrow> Aircraft" where
  "speed_setter v now a = a\<lparr>a_speed := v, a_last_update := now\<rparr>"

definition heading_setter :: "int option \<Rightarrow> real \<Rightarrow> Aircraft \<Rightarrow> Aircraft" where
  "heading_setter v now a = a\<lparr>a_heading := v, a_last_update := now\<rparr>"

text \<open>The position setter reads no clock: it stores the value and empties both slots.\<close>

definition position_setter :: "(real \<times> real) option \<Rightarrow> Aircraft \<Rightarrow> Aircraft" where
  "position_setter v a =
     a\<lparr>a_position := v, a_position_even := None, a_position_odd := None\<rparr>"

definition position_even_setter :: "string \<Rightarrow> real \<Rightarrow> Aircraft \<Rightarrow> Aircraft" where
  "position_even_setter v t a = a\<lparr>a_position_even := Some (v, t)\<rparr>"

definition position_odd_setter :: "string \<Rightarrow> real \<Rightarrow> Aircraft \<Rightarrow> Aircraft" where
  "position_odd_setter v t a = a\<lparr>a_position_odd := Some (v, t)\<rparr>"

text \<open>
  \<open>raise ValueError("This property cannot be set.")\<close>: the result is the object as the
  statement leaves it, and the exception raised.
\<close>

definition age_setter :: "'v \<Rightarrow> Aircraft \<Rightarrow> Aircraft \<times> error option" where
  "age_setter v a = (a, Some ValueError)"

subsection \<open>Attribute assignment\<close>

text \<open>
  The statement \<open>aircraft.name = value\<close> for each property of the class: Python calls the
  setter of that name. The clock has the two readings a setter may take.
\<close>

record clock =
  utcnow :: real
  time_time :: real

datatype 'v assignment =
    Set_icao string
  | Set_callsign "string option"
  | Set_altitude "real option"
  | Set_position "(real \<times> real) option"
  | Set_speed "int option"
  | Set_heading "int option"
  | Set_position_even string
  | Set_position_odd string
  | Set_age 'v

fun assign :: "clock \<Rightarrow> 'v assignment \<Rightarrow> Aircraft \<Rightarrow> Aircraft \<times> error option" where
  "assign c (Set_icao v) a = (icao_setter v (utcnow c) a, None)"
| "assign c (Set_callsign v) a = (callsign_setter v (utcnow c) a, None)"
| "assign c (Set_altitude v) a = (altitude_setter v (utcnow c) a, None)"
| "assign c (Set_position v) a = (position_setter v a, None)"
| "assign c (Set_speed v) a = (speed_setter v (utcnow c) a, None)"
| "assign c (Set_heading v) a = (heading_setter v (utcnow c) a, None)"
| "assign c (Set_position_even v) a = (position_even_setter v (time_time c) a, None)"
| "assign c (Set_position_odd v) a = (position_odd_setter v (time_time c) a, None)"
| "assign c (Set_age v) a = age_setter v a"

subsection \<open>The constructor\<close>

text \<open>
  \<open>Aircraft.__init__\<close> assigns icao, callsign, altitude, position, speed and heading in
  this order, so every attribute exists afterwards; \<open>fresh\<close> stands for the object
  before the first assignment, and each of its fields is overwritten.
\<close>

definition fresh :: Aircraft where
  "fresh = \<lparr>a_icao = [], a_callsign = None, a_altitude = None, a_position = None,
            a_speed = None, a_heading = None, a_last_update = 0,
            a_position_even = None, a_position_odd = None\<rparr>"

definition Aircraft_init :: "string \<Rightarrow> real \<Rightarrow> Aircraft" where
  "Aircraft_init ic now =
     heading_setter None now
       (speed_setter None now
         (position_setter None
           (altitude_setter None now
             (callsign_setter None now
               (icao_setter ic now fresh)))))"

section \<open>maho: the dump1090 reader (maho/adsb.py)\<close>

text \<open>
  The pyModeS functions \<open>Dump1090.decode\<close> calls are parameters of the model: the
  decoder of the wire format is not part of this program. \<open>adsb_position\<close> is
  \<open>modes.adsb.position(even_msg, odd_msg, even_time, odd_time)\<close>, which answers the
  resolved pair or \<open>None\<close>.
\<close>

record modes =
  adsb_icao :: "string \<Rightarrow> string"
  adsb_df :: "string \<Rightarrow> int"
  adsb_typecode :: "string \<Rightarrow> int"
  adsb_callsign :: "string \<Rightarrow> string"
  adsb_speed_heading :: "string \<Rightarrow> real \<times> real"
  adsb_altitude :: "string \<Rightarrow> real option"
  adsb_oe_flag :: "string \<Rightarrow> int"
  adsb_position :: "string \<Rightarrow> string \<Rightarrow> real \<Rightarrow> real \<Rightarrow> (real \<times> real) option"

text \<open>\<open>str.rstrip(c)\<close> for a single character, and \<open>int(x)\<close> of a float (towards zero).\<close>

definition rstrip :: "char \<Rightarrow> string \<Rightarrow> string" where
  "rstrip ch s = rev (dropWhile (\<lambda>x. x = ch) (rev s))"

definition py_int :: "real \<Rightarrow> int" where
  "py_int x = (if 0 \<le> x then \<lfloor>x\<rfloor> else \<lceil>x\<rceil>)"

text \<open>
  The body of the \<open>df == 17\<close> branch, on the aircraft object, in the order of the source.
  All clock readings of one call are taken from one \<open>clock\<close>.
\<close>

definition decode_fields :: "modes \<Rightarrow> clock \<Rightarrow> string \<Rightarrow> Aircraft \<Rightarrow> Aircraft" where
  "decode_fields m c msg a =
     (let a1 = (if adsb_typecode m msg < 5
                then callsign_setter (Some (rstrip CHR ''_'' (adsb_callsign m msg))) (utcnow c) a
                else a)
      in if adsb_typecode m msg = 19
         then heading_setter (Some (py_int (snd (adsb_speed_heading m msg)))) (utcnow c)
                (speed_setter (Some (py_int (fst (adsb_speed_heading m msg) * 1.15078)))
                   (utcnow c) a1)
         else a1)"

text \<open>
  For a position report: the altitude is assigned, then the message goes into the slot
  of its parity. \<open>pending\<close> is the object at the moment the two slots are tested.
\<close>

definition pending :: "modes \<Rightarrow> clock \<Rightarrow> string \<Rightarrow> Aircraft \<Rightarrow> Aircraft" where
  "pending m c msg a =
     (let a3 = altitude_setter (adsb_altitude m msg) (utcnow c) (decode_fields m c msg a)
      in if adsb_oe_flag m msg = 0
         then position_even_setter msg (time_time c) a3
         else position_odd_setter msg (time_time c) a3)"

text \<open>
  \<open>if aircraft.position_odd is not None and aircraft.position_even is not None\<close>: the
  result of \<open>modes.adsb.position\<close> is assigned to \<open>position\<close>, whatever it is. The
  second component is the exception raised, or whether \<open>rv = aircraft\<close> was executed.
\<close>

definition merge_fragments :: "modes \<Rightarrow> Aircraft \<Rightarrow> Aircraft \<times> (error + bool)" where
  "merge_fragments m a =
     (case (position_odd a, position_even a) of
        (Some od, Some ev) \<Rightarrow>
          (let a' = position_setter
                      (adsb_position m (fst ev) (fst od) (snd ev) (snd od)) a
           in case altitude a' of
                Inl e \<Rightarrow> (a', Inl e)
              | Inr alt \<Rightarrow> (a', Inr (alt \<noteq> None \<and> position a' \<noteq> None)))
      | _ \<Rightarrow> (a, Inr False))"

definition decode_update :: "modes \<Rightarrow> clock \<Rightarrow> string \<Rightarrow> Aircraft \<Rightarrow> Aircraft \<times> (error + bool)" where
  "decode_update m c msg a =
     (if adsb_typecode m msg > 8 \<and> adsb_typecode m msg < 19
      then merge_fragments m (pending m c msg a)
      else (decode_fields m c msg a, Inr False))"

text \<open>
  \<open>Dump1090.decode\<close>. The cache is the map of the entries the dictionary answers for
  at this call (its expiry and its capacity belong to the expiringdict library). The
  object found in the cache is changed in place, so it keeps its changes when an
  exception leaves the function before \<open>self._cache[icao] = aircraft\<close>.
\<close>

type_synonym cache = "string \<rightharpoonup> Aircraft"

definition decode :: "modes \<Rightarrow> clock \<Rightarrow> cache \<Rightarrow> string \<Rightarrow> cache \<times> (error + Aircraft option)" where
  "decode m c cache msg =
     (let ic = adsb_icao m msg;
          aircraft = (case cache ic of Some a \<Rightarrow> a | None \<Rightarrow> Aircraft_init ic (utcnow c))
      in if adsb_df m msg = 17
         then (case decode_update m c msg aircraft of
                 (a', Inl e) \<Rightarrow> ((if cache ic = None then cache else cache(ic \<mapsto> a')), Inl e)
               | (a', Inr rv) \<Rightarrow> (cache(ic \<mapsto> a'), Inr (if rv then Some a' else None)))
         else (cache, Inr None))"

section \<open>maho: the camera (maho/camera.py)\<close>

text \<open>
  The camera's two offsets, and its PTZ service as a parameter: \<open>absolute_move (x, y)\<close>
  is False when \<open>AbsoluteMove\<close> with pan \<open>x\<close> and tilt \<open>y\<close> raises ONVIFError.
\<close>

record IPCamera =
  azimuth_offset :: real
  altitude_offset :: real
  absolute_move :: "real \<times> real \<Rightarrow> bool"

definition move_to :: "IPCamera \<Rightarrow> real \<Rightarrow> real \<Rightarrow> error + real \<times> real" where
  "move_to cam azimuth0 altitude0 =
     (let azimuth1 = azimuth0 + azimuth_offset cam;
          altitude1 = altitude0 + altitude_offset cam;
          azimuth = (if azimuth1 > 360 then azimuth1 - 360
                     else if azimuth1 < 0 then 360 + azimuth1
                     else azimuth1);
          altitude = (if altitude1 > 90 then 90
                      else if altitude1 < 0 then 0
                      else altitude1);
          x_target = (if azimuth \<le> 180 then azimuth / 180
                      else ((360 - azimuth) / 180) * - 1);
          y_target = (if altitude \<le> 45 then (45 - altitude) / 45
                      else ((altitude - 45) / 45) * - 1)
      in if absolute_move cam (x_target, y_target)
         then Inr (azimuth, altitude)
         else Inl RuntimeError)"

section \<open>maho: target selection (maho/cli.py, track_closest_aircraft)\<close>

text \<open>
  The loop holds aircraft objects, which the reader goes on changing: an object is a
  reference, and the heap gives each reference its attributes at the time of an
  iteration. One iteration gets the heap and the clock of its moment, the yielded
  aircraft, and the triple \<open>aad.calculate\<close> answered for it.
\<close>

type_synonym ref = nat

type_synonym heap = "ref \<Rightarrow> Aircraft"

record tracker =
  target :: "ref option"
  target_distance :: "real option"

record update =
  u_heap :: heap
  u_now :: real
  u_aircraft :: ref
  u_azimuth :: "real option"
  u_altitude :: "real option"
  u_distance :: real

type_synonym emitted = "ref \<times> real option \<times> real option \<times> real"

definition tracker_init :: tracker where
  "tracker_init = \<lparr>target = None, target_distance = None\<rparr>"

text \<open>
  The condition of the first \<open>if\<close>, with Python's short-circuit order; comparing the
  distance with \<open>None\<close> raises TypeError.
\<close>

definition switch_target :: "update \<Rightarrow> tracker \<Rightarrow> error + bool" where
  "switch_target u st =
     (case target st of
        None \<Rightarrow> Inr True
      | Some t \<Rightarrow>
          if age (u_now u) (u_heap u t) > 60 then Inr True
          else if icao (u_heap u t) \<noteq> icao (u_heap u (u_aircraft u))
          then (case target_distance st of
                  None \<Rightarrow> Inl TypeError
                | Some d \<Rightarrow> Inr (u_distance u < d))
          else Inr False)"

text \<open>
  One iteration: the new state and what was put in the queue, if anything. Reading
  \<open>target.icao\<close> of \<open>None\<close> raises AttributeError.
\<close>

definition track_step :: "update \<Rightarrow> tracker \<Rightarrow> error + tracker \<times> emitted option" where
  "track_step u st =
     (case switch_target u st of
        Inl e \<Rightarrow> Inl e
      | Inr sw \<Rightarrow>
          (let st1 = (if sw then st\<lparr>target := Some (u_aircraft u)\<rparr> else st)
           in case target st1 of
                None \<Rightarrow> Inl AttributeError
              | Some t \<Rightarrow>
                  if icao (u_heap u t) \<noteq> icao (u_heap u (u_aircraft u))
                  then Inr (st1, None)
                  else Inr (\<lparr>target = Some (u_aircraft u),
                             target_distance = Some (u_distance u)\<rparr>,
                            Some (u_aircraft u, u_azimuth u, u_altitude u, u_distance u))))"

text \<open>The loop over the updates: the state after each iteration and what it emitted.\<close>

fun track_run :: "update list \<Rightarrow> tracker \<Rightarrow> error + (tracker \<times> emitted option) list" where
  "track_run [] st = Inr []"
| "track_run (u # us) st =
     (case track_step u st of
        Inl e \<Rightarrow> Inl e
      | Inr (st', out) \<Rightarrow>
          (case track_run us st' of
             Inl e \<Rightarrow> Inl e
           | Inr tr \<Rightarrow> Inr ((st', out) # tr)))"

subsection \<open>The five rules of the specification\<close>

text \<open>
  The reference definition, following the specification's words: the state is no target
  or the tracked address with its last known distance; an input is the address with
  azimuth, altitude and distance; \<open>tage\<close> is the age looked up for the current target's
  entity.
\<close>

datatype selection = NoTarget | Tracking string real

type_synonym aim = "string \<times> real option \<times> real option \<times> real"

fun spec_step :: "real \<Rightarrow> aim \<Rightarrow> selection \<Rightarrow> selection \<times> aim option" where
  "spec_step tage (addr, az, alt, distance) NoTarget =
     (Tracking addr distance, Some (addr, az, alt, distance))"
| "spec_step tage (addr, az, alt, distance) (Tracking cur last_distance) =
     (if tage > 60 then (Tracking addr distance, Some (addr, az, alt, distance))
      else if addr \<noteq> cur \<and> distance < last_distance
      then (Tracking addr distance, Some (addr, az, alt, distance))
      else if addr = cur then (Tracking addr distance, Some (addr, az, alt, distance))
      else (Tracking cur last_distance, None))"

fun spec_run :: "(real \<times> aim) list \<Rightarrow> selection \<Rightarrow> (selection \<times> aim option) list" where
  "spec_run [] s = []"
| "spec_run ((tage, i) # xs) s =
     (case spec_step tage i s of (s', out) \<Rightarrow> (s', out) # spec_run xs s')"

subsection \<open>Reading the loop's state as a state of the specification\<close>

definition abs_state :: "heap \<Rightarrow> tracker \<Rightarrow> selection" where
  "abs_state h st =
     (case (target st, target_distance st) of
        (Some t, Some d) \<Rightarrow> Tracking (icao (h t)) d
      | _ \<Rightarrow> NoTarget)"

definition abs_emitted :: "heap \<Rightarrow> emitted \<Rightarrow> aim" where
  "abs_emitted h e = (case e of (r, az, alt, distance) \<Rightarrow> (icao (h r), az, alt, distance))"

definition aim_of :: "update \<Rightarrow> aim" where
  "aim_of u = (icao (u_heap u (u_aircraft u)), u_azimuth u, u_altitude u, u_distance u)"

text \<open>What \<open>target.age\<close> reads at an iteration (0 stands in while there is no target).\<close>

definition target_age :: "update \<Rightarrow> tracker \<Rightarrow> real" where
  "target_age u st = (case target st of None \<Rightarrow> 0 | Some t \<Rightarrow> age (u_now u) (u_heap u t))"

text \<open>
  The inputs the specification's machine sees along a run of the loop: at each
  iteration the age of the entity that is the target at that moment, and the input.
\<close>

fun observed :: "update list \<Rightarrow> tracker \<Rightarrow> (real \<times> aim) list" where
  "observed [] st = []"
| "observed (u # us) st =
     (target_age u st, aim_of u) #
     (case track_step u st of Inl e \<Rightarrow> [] | Inr (st', out) \<Rightarrow> observed us st')"

fun abs_trace :: "update list \<Rightarrow> (tracker \<times> emitted option) list \<Rightarrow> (selection \<times> aim option) list" where
  "abs_trace (u # us) ((st', out) # tr) =
     (abs_state (u_heap u) st', map_option (abs_emitted (u_heap u)) out) # abs_trace us tr"
| "abs_trace us tr = []"

text \<open>
  An aim point is emitted at an iteration exactly when the target after it has the
  input's address.
\<close>

fun emits_for_target :: "update list \<Rightarrow> (tracker \<times> emitted option) list \<Rightarrow> bool" where
  "emits_for_target (u # us) ((st', out) # tr) =
     ((out \<noteq> None) = (map_option (\<lambda>t. icao (u_heap u t)) (target st')
                         = Some (icao (u_heap u (u_aircraft u))))
      \<and> emits_for_target us tr)"
| "emits_for_target [] [] = True"
| "emits_for_target us tr = False"

text \<open>
  No statement of the program assigns \<open>icao\<close> after the constructor: along a run every
  heap gives a reference the same address.
\<close>

definition icao_stable :: "update list \<Rightarrow> bool" where
  "icao_stable us =
     (\<forall>u \<in> set us. \<forall>u' \<in> set us. \<forall>r. icao (u_heap u r) = icao (u_heap u' r))"

text \<open>Every reachable state of the loop: once there is a target, there is a distance.\<close>

definition tracker_ok :: "tracker \<Rightarrow> bool" where
  "tracker_ok st = (target st = None \<or> target_distance st \<noteq> None)"

section \<open>maho: geodesy (maho/util.py)\<close>

subsection \<open>Double-precision arithmetic\<close>

text \<open>
  The geodesy is a chain of floating-point operations whose rounding decides what it
  returns, so here a Python float is a real number that has a 53-bit significand, and every
  operation rounds its exact result to the nearest such number, ties to the even
  significand. The exponent is unbounded: overflow to infinity, subnormal numbers, NaN and
  the sign of zero are not modelled. \<open>expo x\<close> is the exponent of the binade of \<open>x\<close>, and
  \<open>2 powi (expo x - 52)\<close> the distance between neighbouring doubles there.
\<close>

definition round_even :: "real \<Rightarrow> int" where
  "round_even r = (if r - of_int \<lfloor>r\<rfloor> = 1 / 2 \<and> even \<lfloor>r\<rfloor> then \<lfloor>r\<rfloor> else round r)"

definition expo :: "real \<Rightarrow> int" where
  "expo x = \<lfloor>log 2 \<bar>x\<bar>\<rfloor>"

definition rnd53 :: "real \<Rightarrow> real" where
  "rnd53 x =
     (if x = 0 then 0
      else of_int (round_even (x / 2 powi (expo x - 52))) * 2 powi (expo x - 52))"


text \<open>Python's \<open>+\<close>, \<open>-\<close> and \<open>*\<close> on floats, and \<open>/\<close> by a constant that is not zero.\<close>

definition fadd :: "real \<Rightarrow> real \<Rightarrow> real" where
  "fadd x y = rnd53 (x + y)"

definition fsub :: "real \<Rightarrow> real \<Rightarrow> real" where
  "fsub x y = rnd53 (x - y)"

definition fmul :: "real \<Rightarrow> real \<Rightarrow> real" where
  "fmul x y = rnd53 (x * y)"

definition fdiv :: "real \<Rightarrow> real \<Rightarrow> real" where
  "fdiv x y = rnd53 (x / y)"

text \<open>
  \<open>/\<close> by a computed divisor raises \<open>ZeroDivisionError\<close> at zero; \<open>math.sqrt\<close> is correctly
  rounded and raises \<open>ValueError\<close> below zero.
\<close>

definition py_div :: "real \<Rightarrow> real \<Rightarrow> error + real" where
  "py_div x y = (if y = 0 then Inl ZeroDivisionError else Inr (rnd53 (x / y)))"

definition math_sqrt :: "real \<Rightarrow> error + real" where
  "math_sqrt x = (if x < 0 then Inl ValueError else Inr (rnd53 (sqrt x)))"

text \<open>\<open>math.pi\<close> is the double nearest to pi.\<close>

definition math_pi :: real where
  "math_pi = 884279719003555 / 281474976710656"

text \<open>
  The trigonometric functions are those of the platform's C library, which does not
  promise correct rounding: they are a parameter of the model. \<open>math.acos\<close> raises
  \<open>ValueError\<close> outside \<open>[-1, 1]\<close> before the library is asked.
\<close>

record libm =
  c_cos :: "real \<Rightarrow> real"
  c_sin :: "real \<Rightarrow> real"
  c_tan :: "real \<Rightarrow> real"
  c_atan :: "real \<Rightarrow> real"
  c_acos :: "real \<Rightarrow> real"
  c_atan2 :: "real \<Rightarrow> real \<Rightarrow> real"

definition math_acos :: "libm \<Rightarrow> real \<Rightarrow> error + real" where
  "math_acos L v = (if - 1 \<le> v \<and> v \<le> 1 then Inr (c_acos L v) else Inl ValueError)"


subsection \<open>Location\<close>

text \<open>
  The literals \<open>6356752.3\<close>, \<open>0.00669437999014\<close> and \<open>1.0e-6\<close> are the doubles Python reads
  them as; \<open>6378137.0\<close>, \<open>180.0\<close>, \<open>90.0\<close>, \<open>360.0\<close> and \<open>1.0\<close> are integers.
\<close>

definition wgs_b :: real where
  "wgs_b = 6825510809318195 / 1073741824"

definition wgs_e2 :: real where
  "wgs_e2 = 3859047325321089 / 576460752303423488"

definition eps :: real where
  "eps = 4722366482869645 / 4722366482869645213696"

text \<open>
  \<open>Location\<close>: the three inputs in degrees and metres, and what the constructor
  derives from them.
\<close>

record Location =
  loc_lat :: real
  loc_lng :: real
  loc_ele :: real
  loc_radius :: real
  loc_nx :: real
  loc_ny :: real
  loc_nz :: real
  loc_x :: real
  loc_y :: real
  loc_z :: real

definition earth_radius_in_meters :: "libm \<Rightarrow> real \<Rightarrow> error + real" where
  "earth_radius_in_meters L lat =
     (let a = 6378137;
          b = wgs_b;
          cs = c_cos L lat;
          sn = c_sin L lat;
          t1 = fmul (fmul a a) cs;
          t2 = fmul (fmul b b) sn;
          t3 = fmul a cs;
          t4 = fmul b sn
      in case py_div (fadd (fmul t1 t1) (fmul t2 t2)) (fadd (fmul t3 t3) (fmul t4 t4)) of
           Inl e \<Rightarrow> Inl e
         | Inr q \<Rightarrow> math_sqrt q)"

definition geocentric_latitude :: "libm \<Rightarrow> real \<Rightarrow> real" where
  "geocentric_latitude L lat = c_atan L (fmul (fsub 1 wgs_e2) (c_tan L lat))"

definition Location_init :: "libm \<Rightarrow> real \<Rightarrow> real \<Rightarrow> real \<Rightarrow> error + Location" where
  "Location_init L lat0 lng0 ele =
     (let lat = fdiv (fmul lat0 math_pi) 180;
          lng = fdiv (fmul lng0 math_pi) 180;
          clat = geocentric_latitude L lat;
          lng_cos = c_cos L lng;
          lng_sin = c_sin L lng;
          lat_cos = c_cos L lat;
          lat_sin = c_sin L lat;
          clat_cos = c_cos L clat;
          clat_sin = c_sin L clat
      in case earth_radius_in_meters L lat of
           Inl e \<Rightarrow> Inl e
         | Inr radius \<Rightarrow>
             (let x = fmul (fmul radius lng_cos) clat_cos;
                  y = fmul (fmul radius lng_sin) clat_cos;
                  z = fmul radius clat_sin;
                  nx = fmul lat_cos lng_cos;
                  ny = fmul lat_cos lng_sin;
                  nz = lat_sin
              in Inr \<lparr>loc_lat = lat0, loc_lng = lng0, loc_ele = ele, loc_radius = radius,
                      loc_nx = nx, loc_ny = ny, loc_nz = nz,
                      loc_x = fadd x (fmul ele nx), loc_y = fadd y (fmul ele ny),
                      loc_z = fadd z (fmul ele nz)\<rparr>))"

subsection \<open>AzimuthAltitudeDistance\<close>

text \<open>
  The block of \<open>_azimuth\<close> under \<open>if (bz * bz + by * by > 1.0e-6)\<close>: the azimuth stays
  \<open>None\<close> when the test fails; otherwise it is 90 minus the angle of \<open>(by, bz)\<close> in
  degrees, to which 360 is added when it is below 0, and from which 360 is subtracted
  when it is then above 360.
\<close>

definition normalize_azimuth :: "libm \<Rightarrow> real \<Rightarrow> real \<Rightarrow> real option" where
  "normalize_azimuth L bz by =
     (if eps < fadd (fmul bz bz) (fmul by by)
      then (let theta = fdiv (fmul (c_atan2 L bz by) 180) math_pi;
                azimuth1 = fsub 90 theta;
                azimuth2 = (if azimuth1 < 0 then fadd azimuth1 360 else azimuth1);
                azimuth3 = (if 360 < azimuth2 then fsub azimuth2 360 else azimuth2)
            in Some azimuth3)
      else None)"

text \<open>
  \<open>_azimuth\<close>: the destination is built again with its longitude taken relative to the
  origin, then tilted by the origin's geocentric latitude; the altitude is computed from
  the two locations as they are. \<open>if dist\<close> is the test that the sum of squares is not zero.
\<close>

definition aad_azimuth :: "libm \<Rightarrow> Location \<Rightarrow> Location \<Rightarrow> error + real option \<times> real option" where
  "aad_azimuth L origin destination =
     (case Location_init L (loc_lat destination)
             (fsub (loc_lng destination) (loc_lng origin)) (loc_ele destination) of
        Inl e \<Rightarrow> Inl e
      | Inr rotated_dest \<Rightarrow>
          (let olat = geocentric_latitude L (fdiv (fmul (- loc_lat origin) math_pi) 180);
               olat_cos = c_cos L olat;
               olat_sin = c_sin L olat;
               by = loc_y rotated_dest;
               bz = fadd (fmul (loc_x rotated_dest) olat_sin)
                         (fmul (loc_z rotated_dest) olat_cos);
               azimuth = normalize_azimuth L bz by;
               dx = fsub (loc_x destination) (loc_x origin);
               dy = fsub (loc_y destination) (loc_y origin);
               dz = fsub (loc_z destination) (loc_z origin);
               dist2 = fadd (fadd (fmul dx dx) (fmul dy dy)) (fmul dz dz)
           in if dist2 \<noteq> 0
              then (case math_sqrt dist2 of
                      Inl e \<Rightarrow> Inl e
                    | Inr dlen \<Rightarrow>
                        (case py_div dx dlen of
                           Inl e \<Rightarrow> Inl e
                         | Inr ux \<Rightarrow>
                             (case py_div dy dlen of
                                Inl e \<Rightarrow> Inl e
                              | Inr uy \<Rightarrow>
                                  (case py_div dz dlen of
                                     Inl e \<Rightarrow> Inl e
                                   | Inr uz \<Rightarrow>
                                       (case math_acos L
                                               (fadd (fadd (fmul ux (loc_nx origin))
                                                           (fmul uy (loc_ny origin)))
                                                     (fmul uz (loc_nz origin))) of
                                          Inl e \<Rightarrow> Inl e
                                        | Inr ac \<Rightarrow>
                                            Inr (azimuth,
                                                 Some (fsub 90 (fmul (fdiv 180 math_pi) ac))))))))
              else Inr (azimuth, None)))"

definition aad_distance :: "Location \<Rightarrow> Location \<Rightarrow> error + real" where
  "aad_distance origin destination =
     (let dx = fsub (loc_x origin) (loc_x destination);
          dy = fsub (loc_y origin) (loc_y destination);
          dz = fsub (loc_z origin) (loc_z destination)
      in math_sqrt (fadd (fadd (fmul dx dx) (fmul dy dy)) (fmul dz dz)))"

definition aad_calculate ::
  "libm \<Rightarrow> Location \<Rightarrow> real \<Rightarrow> real \<Rightarrow> real \<Rightarrow> error + real option \<times> real option \<times> real" where
  "aad_calculate L origin lat lng ele =
     (case Location_init L lat lng ele of
        Inl e \<Rightarrow> Inl e
      | Inr destination \<Rightarrow>
          (case aad_distance origin destination of
             Inl e \<Rightarrow> Inl e
           | Inr distance \<Rightarrow>
               (case aad_azimuth L origin destination of
                  Inl e \<Rightarrow> Inl e
                | Inr (az, alt) \<Rightarrow> Inr (az, alt, distance))))"

section \<open>The aging store: capacity (specification, section 4.2)\<close>

text \<open>
  Modelled from the spec: the store that holds the aircraft by address. The program
  keeps them in an \<open>expiringdict.ExpiringDict\<close> built in \<open>Dump1090.__init__\<close> with
  \<open>max_len\<close>; the code of that dictionary is not among the source files. Following the
  specification, the entities are kept in the order of their last touch, the most recent
  first; the age cap is left out (no time passes in what follows).
\<close>

type_synonym 'v store = "(string \<times> 'v) list"

text \<open>
  Modelled from the spec: \<open>get(address)\<close>; an access of an entity that is present counts
  as a touch.
\<close>

definition store_get :: "string \<Rightarrow> 'v store \<Rightarrow> 'v option \<times> 'v store" where
  "store_get k s =
     (case map_of s k of
        None \<Rightarrow> (None, s)
      | Some v \<Rightarrow> (Some v, (k, v) # filter (\<lambda>p. fst p \<noteq> k) s))"

text \<open>
  Modelled from the spec: storing under an address with capacity \<open>N\<close>. A mutation of
  an entity that is present counts as a touch; a new address is added, and when the store
  is full the least recently touched entity is evicted for it.
\<close>

definition store_insert :: "nat \<Rightarrow> string \<Rightarrow> 'v \<Rightarrow> 'v store \<Rightarrow> 'v store" where
  "store_insert N k v s =
     (if k \<in> fst ` set s then (k, v) # filter (\<lambda>p. fst p \<noteq> k) s
      else if length s < N then (k, v) # s
      else (k, v) # butlast s)"

text \<open>Modelled from the spec: the operations on the store, and a run of them in order.\<close>

datatype 'v store_op = Insert string 'v | Access string

fun store_apply :: "nat \<Rightarrow> 'v store_op \<Rightarrow> 'v store \<Rightarrow> 'v store" where
  "store_apply N (Insert k v) s = store_insert N k v s"
| "store_apply N (Access k) s = snd (store_get k s)"

fun store_run :: "nat \<Rightarrow> 'v store_op list \<Rightarrow> 'v store \<Rightarrow> 'v store" where
  "store_run N [] s = s"
| "store_run N (x # xs) s = store_run N xs (store_apply N x s)"

fun op_address :: "'v store_op \<Rightarrow> string" where
  "op_address (Insert k v) = k"
| "op_address (Access k) = k"

fun is_insert :: "'v store_op \<Rightarrow> bool" where
  "is_insert (Insert k v) = True"
| "is_insert (Access k) = False"

text \<open>
  The addresses a sequence of operations inserted, and those addresses in the order of
  their last touch in the sequence, the most recent first (\<open>remdups\<close> keeps the last
  occurrence of each address).
\<close>

definition inserted :: "'v store_op list \<Rightarrow> string set" where
  "inserted ops = set (map op_address (filter is_insert ops))"

definition touch_order :: "'v store_op list \<Rightarrow> string list" where
  "touch_order ops = filter (\<lambda>a. a \<in> inserted ops) (rev (remdups (map op_address ops)))"

section \<open>Concrete inputs\<close>

text \<open>
  A decoder whose merge finds no position, for a report of type code 11: the message
  \<open>even\<close> has parity 0, every other message parity 1.
\<close>

definition no_merge :: modes where
  "no_merge =
     \<lparr>adsb_icao = (\<lambda>s. ''A777BF''), adsb_df = (\<lambda>s. 17), adsb_typecode = (\<lambda>s. 11),
      adsb_callsign = (\<lambda>s. ''AAL517__''), adsb_speed_heading = (\<lambda>s. (262, 56)),
      adsb_altitude = (\<lambda>s. Some 7275),
      adsb_oe_flag = (\<lambda>s. if s = ''even'' then 0 else 1),
      adsb_position = (\<lambda>ev od tev tod. None)\<rparr>"

text \<open>An aircraft created at time 0 whose odd fragment arrived at time 1.\<close>

definition has_odd :: Aircraft where
  "has_odd = position_odd_setter ''odd'' 1 (Aircraft_init ''A777BF'' 0)"

text \<open>The cache that holds this aircraft under its address.\<close>

definition odd_cached :: cache where
  "odd_cached = [''A777BF'' \<mapsto> has_odd]"

text \<open>Cameras whose PTZ service accepts every move: without offsets, and with 10 degrees each.\<close>

definition plain_camera :: IPCamera where
  "plain_camera = \<lparr>azimuth_offset = 0, altitude_offset = 0, absolute_move = (\<lambda>p. True)\<rparr>"

definition offset_camera :: IPCamera where
  "offset_camera = \<lparr>azimuth_offset = 10, altitude_offset = 10, absolute_move = (\<lambda>p. True)\<rparr>"

text \<open>
  The tracker scenario of the specification: A at 500 m, B at 600 m, B at 100 m, and 61
  seconds after B's last report A at 900 m. Reference 0 is A's object, every other
  reference B's; \<open>scenario_heap ta tb\<close> has them last updated at \<open>ta\<close> and \<open>tb\<close>.
\<close>

definition seen :: "string \<Rightarrow> real \<Rightarrow> Aircraft" where
  "seen ic t = position_setter (Some (37.74632, -122.15961))
                 (altitude_setter (Some 7275) t (Aircraft_init ic 0))"

definition scenario_heap :: "real \<Rightarrow> real \<Rightarrow> heap" where
  "scenario_heap ta tb = (\<lambda>r. if r = 0 then seen ''A'' ta else seen ''B'' tb)"

definition scenario :: "update list" where
  "scenario =
    [\<lparr>u_heap = scenario_heap 0 0, u_now = 0, u_aircraft = 0,
      u_azimuth = Some 10, u_altitude = Some 20, u_distance = 500\<rparr>,
     \<lparr>u_heap = scenario_heap 0 1, u_now = 1, u_aircraft = 1,
      u_azimuth = Some 30, u_altitude = Some 20, u_distance = 600\<rparr>,
     \<lparr>u_heap = scenario_heap 0 2, u_now = 2, u_aircraft = 1,
      u_azimuth = Some 30, u_altitude = Some 40, u_distance = 100\<rparr>,
     \<lparr>u_heap = scenario_heap 63 2, u_now = 63, u_aircraft = 0,
      u_azimuth = Some 15, u_altitude = Some 5, u_distance = 900\<rparr>]"

text \<open>
  A store of capacity 2: foo and bar are inserted, foo is read, and then baz arrives.
\<close>

definition three_aircraft :: "unit store_op list" where
  "three_aircraft = [Insert ''foo'' (), Insert ''bar'' (), Access ''foo'']"

text \<open>
  A C library known at the arguments that four locations and three sightings reach, and 0
  elsewhere. The values are what \<open>math.cos\<close>, \<open>math.sin\<close>, \<open>math.tan\<close>, \<open>math.atan\<close>,
  \<open>math.acos\<close> and \<open>math.atan2\<close> return there with glibc on x86-64, written as fractions:
  \<open>884279719003555 / 281474976710656\<close> is \<open>math.pi\<close>, whose cosine is -1 and whose sine
  is \<open>1.2246467991473532e-16\<close>.
\<close>

definition recorded :: libm where
  "recorded =
     \<lparr>c_cos = (\<lambda>x.
         if x = 0 then 1 else
         if x = 884279719003555 / 281474976710656 then - 1 else
         if x = 884279719003555 / 562949953421312 then 4967757600021511 / 81129638414606681695789005144064 else
         if x = - (5030569068109113 / 1298074214633706907132624082305024) then 1 else
         if x = 5030569068109113 / 288230376151711744 then 4502913707333573 / 4503599627370496 else
         if x = 4996899297257795 / 288230376151711744 then 4502922858149955 / 4503599627370496 else
         0),
      c_sin = (\<lambda>x.
         if x = 0 then 0 else
         if x = 884279719003555 / 281474976710656 then 4967757600021511 / 40564819207303340847894502572032 else
         if x = 884279719003555 / 562949953421312 then 1 else
         if x = - (5030569068109113 / 1298074214633706907132624082305024) then - (5030569068109113 / 1298074214633706907132624082305024) else
         if x = 5030569068109113 / 288230376151711744 then 2515156836085391 / 144115188075855872 else
         if x = 4996899297257795 / 288230376151711744 then 4996648995143741 / 288230376151711744 else
         0),
      c_tan = (\<lambda>x.
         if x = 0 then 0 else
         if x = 5030569068109113 / 288230376151711744 then 2515539965006353 / 144115188075855872 else
         0),
      c_atan = (\<lambda>x.
         if x = 0 then 0 else
         if x = 2498699984600217 / 144115188075855872 then 4996899297257795 / 288230376151711744 else
         0),
      c_acos = (\<lambda>x.
         if x = - 1 then 884279719003555 / 281474976710656 else
         if x = - (1592262918131443 / 2251799813685248) then 2652839157010665 / 1125899906842624 else
         if x = - (1257626951240735 / 144115188075855872) then 7113539093081373 / 4503599627370496 else
         0),
      c_atan2 = (\<lambda>y x.
         if y = 0 \<and> x = 6378137 then 0 else
         if y = 3799114174639879 / 34359738368 \<and> x = - (7648659851501165 / 309485009821345068724781056) then 7074237752028441 / 4503599627370496 else
         0)\<rparr>"

text \<open>
  The locations \<open>Location(0, 0, 0)\<close>, \<open>Location(0, 180, 0)\<close>, \<open>Location(0, 90, 0)\<close> and
  \<open>Location(1, -2.220446049250313e-16, 0)\<close> with that library.
\<close>

definition equator_0 :: Location where
  "equator_0 =
     \<lparr>loc_lat = 0, loc_lng = 0, loc_ele = 0, loc_radius = 6378137,
      loc_nx = 1, loc_ny = 0, loc_nz = 0,
      loc_x = 6378137, loc_y = 0, loc_z = 0\<rparr>"

definition equator_180 :: Location where
  "equator_180 =
     \<lparr>loc_lat = 0, loc_lng = 180, loc_ele = 0, loc_radius = 6378137,
      loc_nx = - 1, loc_ny = 4967757600021511 / 40564819207303340847894502572032, loc_nz = 0,
      loc_x = - 6378137, loc_y = 7554301871234989 / 9671406556917033397649408, loc_z = 0\<rparr>"

definition equator_90 :: Location where
  "equator_90 =
     \<lparr>loc_lat = 0, loc_lng = 90, loc_ele = 0, loc_radius = 6378137,
      loc_nx = 4967757600021511 / 81129638414606681695789005144064, loc_ny = 1, loc_nz = 0,
      loc_x = 7554301871234989 / 19342813113834066795298816, loc_y = 6378137, loc_z = 0\<rparr>"


section \<open>Properties of the entity\<close>

lemmas getter_defs =
  icao_def callsign_def altitude_def speed_def heading_def position_def
  position_even_def position_odd_def age_def

lemmas setter_defs =
  icao_setter_def callsign_setter_def altitude_setter_def speed_setter_def
  heading_setter_def position_setter_def position_even_setter_def
  position_odd_setter_def age_setter_def

lemma Aircraft_init_eq:
  "Aircraft_init ic now =
     \<lparr>a_icao = ic, a_callsign = None, a_altitude = None, a_position = None,
      a_speed = None, a_heading = None, a_last_update = now,
      a_position_even = None, a_position_odd = None\<rparr>"
  by (simp add: Aircraft_init_def fresh_def setter_defs)

text \<open>
  The five setters that stamp: after each of them the age read at the same instant is 0,
  and it grows with the clock while the object is left alone.
\<close>

lemma stamping_setters_age:
  "age now (icao_setter s now a) = 0"
  "age now (callsign_setter cs now a) = 0"
  "age now (altitude_setter al now a) = 0"
  "age now (speed_setter sp now a) = 0"
  "age now (heading_setter hg now a) = 0"
  by (simp_all add: age_def setter_defs)

lemma age_strict_mono: "t1 < t2 \<Longrightarrow> age t1 a < age t2 a"
  by (simp add: age_def)

text \<open>The position setter never changes \<open>_last_update\<close>, so it never changes the age.\<close>

lemma position_setter_keeps_last_update:
  "a_last_update (position_setter v a) = a_last_update a"
  "age now (position_setter v a) = age now a"
  by (simp_all add: position_setter_def age_def)

text \<open>
  C3 (fails for \<open>position\<close>). An aircraft created at time 0 is assigned a position at
  time 100: the position setter leaves \<open>_last_update\<close> alone, so the age read at time 100
  is 100 and not 0, while assigning the callsign at the same instant gives age 0.
\<close>

theorem position_assignment_keeps_age:
  "age 100 (fst (assign \<lparr>utcnow = 100, time_time = 100\<rparr>
                  (Set_position (Some (37.74632, -122.15961)) :: unit assignment)
                  (Aircraft_init ''A777BF'' 0))) = 100
   \<and> age 100 (fst (assign \<lparr>utcnow = 100, time_time = 100\<rparr>
                  (Set_callsign (Some ''AAL517'') :: unit assignment)
                  (Aircraft_init ''A777BF'' 0))) = 0"
  by (simp add: Aircraft_init_eq age_def setter_defs)

text \<open>
  C6. Whatever the two fragment slots hold and whatever value is assigned, both slots
  are empty right after \<open>aircraft.position = value\<close>.
\<close>

theorem position_assignment_clears_fragments:
  "position_even (fst (assign c (Set_position v) a)) = None
   \<and> position_odd (fst (assign c (Set_position v) a)) = None"
  by (simp add: position_even_def position_odd_def position_setter_def)

text \<open>
  C9. For every aircraft and every value, \<open>aircraft.age = value\<close> raises ValueError and
  leaves the object, its \<open>_last_update\<close> included, as it was.
\<close>

theorem age_assignment_raises:
  "assign c (Set_age v) a = (a, Some ValueError)"
  by (simp add: age_setter_def)

text \<open>
  C10. Reading \<open>altitude\<close> while the stored altitude is \<open>None\<close> raises TypeError; this
  is the state of every freshly created aircraft. The altitude getter never returns
  \<open>None\<close>, although callsign, position, speed and heading of a fresh aircraft all read
  back as \<open>None\<close>.
\<close>

theorem altitude_unset_raises:
  "(a_altitude a = None \<longrightarrow> altitude a = Inl TypeError)
   \<and> altitude (Aircraft_init ic now) = Inl TypeError
   \<and> altitude a \<noteq> Inr None
   \<and> callsign (Aircraft_init ic now) = None
   \<and> position (Aircraft_init ic now) = None
   \<and> speed (Aircraft_init ic now) = None
   \<and> heading (Aircraft_init ic now) = None"
  by (simp add: Aircraft_init_eq getter_defs split: option.split)

theorem altitude_unset_raises_witness:
  "a_altitude (callsign_setter (Some ''AAL517'') 5 (Aircraft_init ''A777BF'' 0)) = None
   \<and> altitude (callsign_setter (Some ''AAL517'') 5 (Aircraft_init ''A777BF'' 0)) = Inl TypeError"
  using altitude_unset_raises
    [of "callsign_setter (Some ''AAL517'') 5 (Aircraft_init ''A777BF'' 0)"]
  by (simp add: Aircraft_init_eq callsign_setter_def)

section \<open>Properties of the reader\<close>

text \<open>
  An aircraft found in the cache is changed in place: after a report with \<open>df = 17\<close>
  the cache holds the object as the body of the branch left it, exception or not.
\<close>

lemma decode_cached:
  assumes "adsb_df m msg = 17" "cache (adsb_icao m msg) = Some a"
  shows "fst (decode m c cache msg) (adsb_icao m msg) = Some (fst (decode_update m c msg a))"
  using assms by (simp add: decode_def Let_def split: prod.split sum.split)

lemma merge_fragments_clears:
  assumes "position_even a = Some ev" "position_odd a = Some od"
  shows "position (fst (merge_fragments m a))
           = adsb_position m (fst ev) (fst od) (snd ev) (snd od)
         \<and> position_even (fst (merge_fragments m a)) = None
         \<and> position_odd (fst (merge_fragments m a)) = None"
  using assms
  by (simp add: merge_fragments_def Let_def position_def position_even_def
      position_odd_def position_setter_def split: sum.split)

text \<open>
  C2 (as the code has it). When a position report for a cached aircraft leaves both
  slots filled, decode assigns whatever the merge answers to \<open>position\<close>, also no
  result, and the position setter empties both slots: after a failed merge the aircraft
  has no position and no fragment.
\<close>

theorem merge_assigns_and_clears_fragments:
  assumes df: "adsb_df m msg = 17"
    and tc: "8 < adsb_typecode m msg" "adsb_typecode m msg < 19"
    and cached: "cache (adsb_icao m msg) = Some a"
    and ev: "position_even (pending m c msg a) = Some ev"
    and od: "position_odd (pending m c msg a) = Some od"
  shows "\<exists>a'. fst (decode m c cache msg) (adsb_icao m msg) = Some a'
         \<and> position a' = adsb_position m (fst ev) (fst od) (snd ev) (snd od)
         \<and> position_even a' = None
         \<and> position_odd a' = None"
proof -
  have "decode_update m c msg a = merge_fragments m (pending m c msg a)"
    using tc by (simp add: decode_update_def)
  with merge_fragments_clears [OF ev od, of m]
  have "position (fst (decode_update m c msg a))
           = adsb_position m (fst ev) (fst od) (snd ev) (snd od)
         \<and> position_even (fst (decode_update m c msg a)) = None
         \<and> position_odd (fst (decode_update m c msg a)) = None"
    by simp
  with decode_cached [of m msg cache a c] df cached show ?thesis
    by simp
qed

lemma pending_has_odd:
  "position_even (pending no_merge \<lparr>utcnow = 2, time_time = 2\<rparr> ''even'' has_odd)
     = Some (''even'', 2)"
  "position_odd (pending no_merge \<lparr>utcnow = 2, time_time = 2\<rparr> ''even'' has_odd)
     = Some (''odd'', 1)"
  by (simp_all add: no_merge_def has_odd_def pending_def decode_fields_def Let_def
      Aircraft_init_eq getter_defs setter_defs)

theorem merge_assigns_and_clears_fragments_witness:
  "\<exists>a'. fst (decode no_merge \<lparr>utcnow = 2, time_time = 2\<rparr> odd_cached ''even'') ''A777BF''
          = Some a'
        \<and> position a' = None \<and> position_even a' = None \<and> position_odd a' = None"
proof -
  have df: "adsb_df no_merge ''even'' = 17"
    and tc: "8 < adsb_typecode no_merge ''even''" "adsb_typecode no_merge ''even'' < 19"
    and cached: "odd_cached (adsb_icao no_merge ''even'') = Some has_odd"
    and ic: "adsb_icao no_merge ''even'' = ''A777BF''"
    and no: "adsb_position no_merge ''even'' ''odd'' 2 1 = None"
    by (simp_all add: no_merge_def odd_cached_def)
  from merge_assigns_and_clears_fragments
    [of no_merge "''even''" odd_cached has_odd "\<lparr>utcnow = 2, time_time = 2\<rparr>"
      "(''even'', 2)" "(''odd'', 1)"]
    df tc cached pending_has_odd ic no
  show ?thesis
    by simp
qed

text \<open>
  C2 (as stated) fails: the even fragment arrives at time 2 for a cached aircraft that
  holds an odd fragment, both slots are filled, the merge finds nothing, and afterwards
  both slots of the cached aircraft are empty instead of holding the two fragments;
  decode returns \<open>None\<close>.
\<close>

theorem failed_merge_drops_fragments:
  "position_even (pending no_merge \<lparr>utcnow = 2, time_time = 2\<rparr> ''even'' has_odd)
     = Some (''even'', 2)
   \<and> position_odd (pending no_merge \<lparr>utcnow = 2, time_time = 2\<rparr> ''even'' has_odd)
     = Some (''odd'', 1)
   \<and> adsb_position no_merge ''even'' ''odd'' 2 1 = None
   \<and> map_option position_even
        (fst (decode no_merge \<lparr>utcnow = 2, time_time = 2\<rparr> odd_cached ''even'') ''A777BF'')
      = Some None
   \<and> map_option position_odd
        (fst (decode no_merge \<lparr>utcnow = 2, time_time = 2\<rparr> odd_cached ''even'') ''A777BF'')
      = Some None
   \<and> snd (decode no_merge \<lparr>utcnow = 2, time_time = 2\<rparr> odd_cached ''even'') = Inr None"
  by (simp add: no_merge_def has_odd_def odd_cached_def decode_def decode_update_def
      merge_fragments_def pending_def decode_fields_def Let_def Aircraft_init_eq
      getter_defs setter_defs)

section \<open>Properties of the camera\<close>

text \<open>
  C8 (as the code has it). When \<open>move_to\<close> succeeds it returns the requested pair with the
  offsets added, the altitude clamped into [0, 90] and the azimuth wrapped once: 360 is
  subtracted from a sum above 360 and added to a sum below 0. So a sum between -360 and
  720 ends in [0, 360]; the value 360 itself is kept, and is returned exactly for the
  sums 360 and 720.
\<close>

theorem move_to_adjusts:
  assumes "move_to cam azimuth0 altitude0 = Inr (az, al)"
  shows "al = max 0 (min 90 (altitude0 + altitude_offset cam))
     \<and> 0 \<le> al \<and> al \<le> 90
     \<and> az = (if azimuth0 + azimuth_offset cam > 360 then azimuth0 + azimuth_offset cam - 360
             else if azimuth0 + azimuth_offset cam < 0 then azimuth0 + azimuth_offset cam + 360
             else azimuth0 + azimuth_offset cam)
     \<and> (- 360 \<le> azimuth0 + azimuth_offset cam \<and> azimuth0 + azimuth_offset cam \<le> 720
          \<longrightarrow> 0 \<le> az \<and> az \<le> 360)
     \<and> (az = 360 \<longleftrightarrow> azimuth0 + azimuth_offset cam = 360 \<or> azimuth0 + azimuth_offset cam = 720)"
  using assms by (auto simp add: move_to_def Let_def split: if_splits)

theorem move_to_adjusts_witness:
  "move_to offset_camera 360 81 = Inr (10, 90)
   \<and> - 360 \<le> 360 + azimuth_offset offset_camera \<and> 360 + azimuth_offset offset_camera \<le> 720
   \<and> (0::real) \<le> 10 \<and> (10::real) \<le> 360"
proof -
  have run: "move_to offset_camera 360 81 = Inr (10, 90)"
    by (simp add: move_to_def offset_camera_def Let_def)
  from move_to_adjusts [OF run] run show ?thesis
    by (simp add: offset_camera_def)
qed

text \<open>
  C8 (as stated) fails: with no offsets, a request for azimuth 360 is answered with
  azimuth 360, which is not in [0, 360).
\<close>

theorem move_to_keeps_360:
  "move_to plain_camera 360 45 = Inr (360, 45) \<and> \<not> ((360::real) < 360)"
  by (simp add: move_to_def plain_camera_def Let_def)

section \<open>Properties of the target selection\<close>

lemma track_step_simulates:
  assumes "tracker_ok st"
  shows "\<exists>st' out. track_step u st = Inr (st', out) \<and> tracker_ok st'
     \<and> spec_step (target_age u st) (aim_of u) (abs_state (u_heap u) st)
         = (abs_state (u_heap u) st', map_option (abs_emitted (u_heap u)) out)
     \<and> ((out \<noteq> None) = (map_option (\<lambda>t. icao (u_heap u t)) (target st')
                         = Some (icao (u_heap u (u_aircraft u)))))"
proof (cases "target st")
  case None
  then show ?thesis
    by (simp add: track_step_def switch_target_def tracker_ok_def abs_state_def
        aim_of_def abs_emitted_def)
next
  case (Some t)
  with assms obtain d where d: "target_distance st = Some d"
    by (auto simp: tracker_ok_def)
  show ?thesis
    using Some d
    by (simp add: track_step_def switch_target_def tracker_ok_def abs_state_def
        aim_of_def abs_emitted_def target_age_def)
qed

lemma abs_state_stable:
  assumes "\<forall>r. icao (h r) = icao (h' r)"
  shows "abs_state h st = abs_state h' st"
  using assms by (simp add: abs_state_def split: option.split)

lemma icao_stable_tail: "icao_stable (u # us) \<Longrightarrow> icao_stable us"
  unfolding icao_stable_def by (meson list.set_intros(2))

lemma icao_stable_head2:
  "icao_stable (u # u' # us) \<Longrightarrow> \<forall>r. icao (u_heap u' r) = icao (u_heap u r)"
  unfolding icao_stable_def by (meson list.set_intros)

lemma track_run_simulates:
  assumes "tracker_ok st" "icao_stable us"
  shows "\<exists>tr. track_run us st = Inr tr
     \<and> abs_trace us tr
         = spec_run (observed us st)
             (case us of [] \<Rightarrow> NoTarget | u # _ \<Rightarrow> abs_state (u_heap u) st)
     \<and> emits_for_target us tr"
  using assms
proof (induction us arbitrary: st)
  case Nil
  then show ?case by simp
next
  case (Cons u us)
  from track_step_simulates [OF Cons.prems(1), of u]
  obtain st' out where step: "track_step u st = Inr (st', out)" and ok': "tracker_ok st'"
    and sim: "spec_step (target_age u st) (aim_of u) (abs_state (u_heap u) st)
         = (abs_state (u_heap u) st', map_option (abs_emitted (u_heap u)) out)"
    and em: "(out \<noteq> None) = (map_option (\<lambda>t. icao (u_heap u t)) (target st')
                         = Some (icao (u_heap u (u_aircraft u))))"
    by blast
  from Cons.IH [OF ok' icao_stable_tail [OF Cons.prems(2)]]
  obtain tr where run: "track_run us st' = Inr tr"
    and tr: "abs_trace us tr = spec_run (observed us st')
             (case us of [] \<Rightarrow> NoTarget | u # _ \<Rightarrow> abs_state (u_heap u) st')"
    and ems: "emits_for_target us tr"
    by blast
  have next_state: "spec_run (observed us st')
             (case us of [] \<Rightarrow> NoTarget | u # _ \<Rightarrow> abs_state (u_heap u) st')
        = spec_run (observed us st') (abs_state (u_heap u) st')"
  proof (cases us)
    case Nil
    then show ?thesis by simp
  next
    case (Cons u' us')
    have "icao_stable (u # u' # us')"
      using \<open>icao_stable (u # us)\<close> unfolding Cons .
    then have "\<forall>r. icao (u_heap u' r) = icao (u_heap u r)"
      by (rule icao_stable_head2)
    then have "abs_state (u_heap u') st' = abs_state (u_heap u) st'"
      by (rule abs_state_stable)
    then show ?thesis unfolding Cons by simp
  qed
  have r1: "track_run (u # us) st = Inr ((st', out) # tr)"
    using step run by simp
  have r2: "abs_trace (u # us) ((st', out) # tr)
      = spec_run (observed (u # us) st) (abs_state (u_heap u) st)"
    using step sim tr next_state by simp
  have r3: "emits_for_target (u # us) ((st', out) # tr)"
    using em ems by simp
  show ?case
    unfolding r1 using r2 r3 by simp
qed

text \<open>
  C1. For every sequence of updates (with the addresses of the objects fixed), the loop
  started without a target raises nothing, the states it goes through and what it puts
  in the queue are those of the five rules run on the same inputs from \<open>NoTarget\<close>,
  and an aim point is emitted at an iteration exactly when the target after it has the
  input's address.
\<close>

theorem tracker_follows_rules:
  assumes "icao_stable us"
  shows "\<exists>tr. track_run us tracker_init = Inr tr
     \<and> abs_trace us tr = spec_run (observed us tracker_init) NoTarget
     \<and> emits_for_target us tr"
proof -
  have ok: "tracker_ok tracker_init"
    by (simp add: tracker_ok_def tracker_init_def)
  have "(case us of [] \<Rightarrow> NoTarget | u # _ \<Rightarrow> abs_state (u_heap u) tracker_init) = NoTarget"
    by (simp add: abs_state_def tracker_init_def split: list.split)
  with track_run_simulates [OF ok assms] show ?thesis by simp
qed

lemma icao_seen: "icao (scenario_heap ta tb r) = (if r = 0 then ''A'' else ''B'')"
  by (simp add: scenario_heap_def seen_def Aircraft_init_eq icao_def setter_defs)

lemma age_seen: "age now (scenario_heap ta tb r) = (if r = 0 then now - ta else now - tb)"
  by (simp add: scenario_heap_def seen_def Aircraft_init_eq age_def setter_defs)

lemma scenario_stable: "icao_stable scenario"
  unfolding icao_stable_def scenario_def by (simp add: icao_seen)

lemma scenario_run:
  "track_run scenario tracker_init =
     Inr [(\<lparr>target = Some 0, target_distance = Some 500\<rparr>, Some (0, Some 10, Some 20, 500)),
          (\<lparr>target = Some 0, target_distance = Some 500\<rparr>, None),
          (\<lparr>target = Some 1, target_distance = Some 100\<rparr>, Some (1, Some 30, Some 40, 100)),
          (\<lparr>target = Some 0, target_distance = Some 900\<rparr>, Some (0, Some 15, Some 5, 900))]"
  by (simp add: scenario_def tracker_init_def track_step_def switch_target_def icao_seen age_seen)

theorem tracker_follows_rules_witness:
  "icao_stable scenario
   \<and> (\<exists>tr. track_run scenario tracker_init = Inr tr
     \<and> abs_trace scenario tr = spec_run (observed scenario tracker_init) NoTarget
     \<and> emits_for_target scenario tr)
   \<and> spec_run (observed scenario tracker_init) NoTarget =
       [(Tracking ''A'' 500, Some (''A'', Some 10, Some 20, 500)),
        (Tracking ''A'' 500, None),
        (Tracking ''B'' 100, Some (''B'', Some 30, Some 40, 100)),
        (Tracking ''A'' 900, Some (''A'', Some 15, Some 5, 900))]"
proof -
  have "spec_run (observed scenario tracker_init) NoTarget =
       [(Tracking ''A'' 500, Some (''A'', Some 10, Some 20, 500)),
        (Tracking ''A'' 500, None),
        (Tracking ''B'' 100, Some (''B'', Some 30, Some 40, 100)),
        (Tracking ''A'' 900, Some (''A'', Some 15, Some 5, 900))]"
    by (simp add: scenario_def tracker_init_def track_step_def switch_target_def
        target_age_def aim_of_def icao_seen age_seen)
  with tracker_follows_rules [OF scenario_stable] scenario_stable show ?thesis
    by blast
qed

section \<open>Properties of the geodesy\<close>

subsection \<open>Rounding\<close>

text \<open>
  \<open>rnd53\<close> returns a double, no double is nearer to the exact value, doubles are kept
  and the order is kept. A rounding is certified by the binade of the exact value and
  the significand of the double: the exact value is less than half a unit in the last
  place away.
\<close>

lemma round_even_minimal: "\<bar>r - of_int (round_even r)\<bar> \<le> \<bar>r - of_int m\<bar>"
proof (cases "r - of_int \<lfloor>r\<rfloor> = 1 / 2 \<and> even \<lfloor>r\<rfloor>")
  case True
  then have half: "r = of_int \<lfloor>r\<rfloor> + 1 / 2"
    by linarith
  then have "round r = \<lfloor>r\<rfloor> + 1"
    unfolding round_def by (intro floor_unique; simp; linarith)
  then have "\<bar>r - of_int (round r)\<bar> = \<bar>r - of_int \<lfloor>r\<rfloor>\<bar>"
    using half by simp
  moreover have "round_even r = \<lfloor>r\<rfloor>"
    unfolding round_even_def by (rule if_P [OF True])
  ultimately show ?thesis
    using round_diff_minimal [of r m] by simp
next
  case False
  have "round_even r = round r"
    unfolding round_even_def by (rule if_not_P [OF False])
  then show ?thesis
    using round_diff_minimal [of r m] by simp
qed

lemma round_even_unique:
  assumes "\<bar>r - of_int n\<bar> < 1 / 2"
  shows "round_even r = n"
proof -
  have "\<bar>r - of_int (round_even r)\<bar> < 1 / 2"
    using round_even_minimal [of r n] assms by linarith
  with assms have "\<bar>real_of_int (round_even r) - of_int n\<bar> < 1"
    by linarith
  then have "\<bar>round_even r - n\<bar> < 1"
    by (metis of_int_1 of_int_abs of_int_diff of_int_less_iff)
  then show ?thesis by linarith
qed


lemma expo_unique:
  assumes "2 powi k \<le> \<bar>x\<bar>" "\<bar>x\<bar> < 2 powi (k + 1)"
  shows "expo x = k"
proof -
  have pos: "0 < \<bar>x\<bar>"
    using assms(1) zero_less_power_int [of "2::real" k] by linarith
  have "(2::real) powr (of_int k) \<le> \<bar>x\<bar>" "\<bar>x\<bar> < 2 powr (of_int k + 1)"
    using assms powr_real_of_int' [of "2::real" k] powr_real_of_int' [of "2::real" "k + 1"]
    by simp_all
  then show ?thesis
    using floor_log_eq_powr_iff [of "\<bar>x\<bar>" 2 k] pos by (simp add: expo_def)
qed






lemma rnd53_cert:
  assumes "2 powi k \<le> \<bar>x\<bar>" "\<bar>x\<bar> < 2 powi (k + 1)"
    and "\<bar>x - of_int n * 2 powi (k - 52)\<bar> * 2 < 2 powi (k - 52)"
  shows "rnd53 x = of_int n * 2 powi (k - 52)"
proof -
  define u :: real where "u = 2 powi (k - 52)"
  have u: "0 < u" by (simp add: u_def)
  have e: "expo x = k" using assms(1,2) by (rule expo_unique)
  have nz: "x \<noteq> 0"
  proof
    assume "x = 0"
    with assms(1) have "(2::real) powi k \<le> 0" by simp
    moreover have "0 < (2::real) powi k" by simp
    ultimately show False by linarith
  qed
  have "x / u - of_int n = (x - of_int n * u) / u"
    using u by (simp add: field_simps)
  then have "\<bar>x / u - of_int n\<bar> = \<bar>x - of_int n * u\<bar> / u"
    using u by (simp add: abs_divide)
  also have "\<dots> < 1 / 2"
    using assms(3) u by (simp add: u_def [symmetric] field_simps)
  finally have "round_even (x / u) = n"
    by (rule round_even_unique)
  then show ?thesis
    using nz e by (simp add: rnd53_def u_def)
qed







lemma rnd53_0 [simp]: "rnd53 0 = 0"
  by (simp add: rnd53_def)

lemma rnd53_cert':
  assumes "2 powi k \<le> \<bar>x\<bar>" "\<bar>x\<bar> < 2 powi (k + 1)"
    and "d = of_int n * 2 powi (k - 52)"
    and "\<bar>x - d\<bar> * 2 < 2 powi (k - 52)"
  shows "rnd53 x = d"
  using rnd53_cert [OF assms(1,2), of n] assms(3,4) by simp

lemma rnd53_sqrt_cert:
  assumes "2 powi k * 2 powi k \<le> q" "q < 2 powi (k + 1) * 2 powi (k + 1)"
    and "d = of_int n * 2 powi (k - 52)"
    and "0 \<le> d - 2 powi (k - 52) / 2"
    and "(d - 2 powi (k - 52) / 2) * (d - 2 powi (k - 52) / 2) < q"
    and "q < (d + 2 powi (k - 52) / 2) * (d + 2 powi (k - 52) / 2)"
  shows "rnd53 (sqrt q) = d"
proof -
  define h :: real where "h = 2 powi (k - 52) / 2"
  have h: "0 < h" by (simp add: h_def)
  have lo: "0 \<le> d - h" using assms(4) by (simp add: h_def)
  have p: "0 \<le> (2::real) powi k" "0 \<le> (2::real) powi (k + 1)" by simp_all
  have q: "0 \<le> q"
    using assms(1) mult_nonneg_nonneg [OF p(1) p(1)] by linarith
  have s1: "2 powi k \<le> sqrt q"
    using assms(1) by (intro real_le_rsqrt) (simp add: power2_eq_square)
  have s2: "sqrt q < 2 powi (k + 1)"
    using assms(2) p(2) by (intro real_less_lsqrt) (simp_all add: power2_eq_square)
  have s3: "d - h < sqrt q"
    using assms(5) by (intro real_less_rsqrt) (simp add: power2_eq_square h_def)
  have s4: "sqrt q < d + h"
  proof (rule real_less_lsqrt)
    show "0 \<le> d + h" using lo h by linarith
    show "q < (d + h)\<^sup>2" using assms(6) by (simp add: h_def power2_eq_square)
  qed
  have s5: "0 \<le> sqrt q" using q by simp
  have a1: "2 powi k \<le> \<bar>sqrt q\<bar>" using s1 s5 by linarith
  have a2: "\<bar>sqrt q\<bar> < 2 powi (k + 1)" using s2 s5 by linarith
  have "\<bar>sqrt q - d\<bar> < h"
    using s3 s4 by linarith
  then have a3: "\<bar>sqrt q - d\<bar> * 2 < 2 powi (k - 52)"
    by (simp add: h_def)
  show ?thesis
    using a1 a2 assms(3) a3 by (rule rnd53_cert')
qed

lemma py_div_cert: "y \<noteq> 0 \<Longrightarrow> rnd53 (x / y) = d \<Longrightarrow> py_div x y = Inr d"
  by (simp add: py_div_def)

lemma math_sqrt_cert: "0 \<le> q \<Longrightarrow> rnd53 (sqrt q) = d \<Longrightarrow> math_sqrt q = Inr d"
  by (simp add: math_sqrt_def)

subsection \<open>The range of the azimuth\<close>












subsection \<open>The recorded library and the roundings of three sightings\<close>

lemma recorded_tan_1: "c_tan recorded 0 = 0"
  by (simp add: recorded_def)

lemma recorded_atan_2: "c_atan recorded 0 = 0"
  by (simp add: recorded_def)

lemma recorded_cos_3: "c_cos recorded 0 = 1"
  by (simp add: recorded_def)

lemma recorded_sin_4: "c_sin recorded 0 = 0"
  by (simp add: recorded_def)

lemma recorded_cos_5: "c_cos recorded (884279719003555 / 281474976710656) = - 1"
  by (simp add: recorded_def)

lemma recorded_sin_6: "c_sin recorded (884279719003555 / 281474976710656) = 4967757600021511 / 40564819207303340847894502572032"
  by (simp add: recorded_def)

lemma recorded_acos_7: "c_acos recorded (- 1) = 884279719003555 / 281474976710656"
  by (simp add: recorded_def)

lemma recorded_cos_8: "c_cos recorded (884279719003555 / 562949953421312) = 4967757600021511 / 81129638414606681695789005144064"
  by (simp add: recorded_def)

lemma recorded_sin_9: "c_sin recorded (884279719003555 / 562949953421312) = 1"
  by (simp add: recorded_def)

lemma recorded_atan2_10: "c_atan2 recorded 0 6378137 = 0"
  by (simp add: recorded_def)

lemma recorded_acos_11: "c_acos recorded (- (1592262918131443 / 2251799813685248)) = 2652839157010665 / 1125899906842624"
  by (simp add: recorded_def)

lemma recorded_tan_12: "c_tan recorded (5030569068109113 / 288230376151711744) = 2515539965006353 / 144115188075855872"
  by (simp add: recorded_def)

lemma recorded_atan_13: "c_atan recorded (2498699984600217 / 144115188075855872) = 4996899297257795 / 288230376151711744"
  by (simp add: recorded_def)

lemma recorded_cos_14: "c_cos recorded (- (5030569068109113 / 1298074214633706907132624082305024)) = 1"
  by (simp add: recorded_def)

lemma recorded_sin_15: "c_sin recorded (- (5030569068109113 / 1298074214633706907132624082305024)) = - (5030569068109113 / 1298074214633706907132624082305024)"
  by (simp add: recorded_def)

lemma recorded_cos_16: "c_cos recorded (5030569068109113 / 288230376151711744) = 4502913707333573 / 4503599627370496"
  by (simp add: recorded_def)

lemma recorded_sin_17: "c_sin recorded (5030569068109113 / 288230376151711744) = 2515156836085391 / 144115188075855872"
  by (simp add: recorded_def)

lemma recorded_cos_18: "c_cos recorded (4996899297257795 / 288230376151711744) = 4502922858149955 / 4503599627370496"
  by (simp add: recorded_def)

lemma recorded_sin_19: "c_sin recorded (4996899297257795 / 288230376151711744) = 4996648995143741 / 288230376151711744"
  by (simp add: recorded_def)

lemma recorded_atan2_20: "c_atan2 recorded (3799114174639879 / 34359738368) (- (7648659851501165 / 309485009821345068724781056)) = 7074237752028441 / 4503599627370496"
  by (simp add: recorded_def)

lemma recorded_acos_21: "c_acos recorded (- (1257626951240735 / 144115188075855872)) = 7113539093081373 / 4503599627370496"
  by (simp add: recorded_def)

lemmas recorded_values =
  recorded_tan_1 recorded_atan_2 recorded_cos_3 recorded_sin_4
  recorded_cos_5 recorded_sin_6 recorded_acos_7 recorded_cos_8
  recorded_sin_9 recorded_atan2_10 recorded_acos_11 recorded_tan_12
  recorded_atan_13 recorded_cos_14 recorded_sin_15 recorded_cos_16
  recorded_sin_17 recorded_cos_18 recorded_sin_19 recorded_atan2_20
  recorded_acos_21


text \<open>Every arithmetic operation that the four locations and the three sightings perform.\<close>

lemma step_1: "fmul 0 (884279719003555 / 281474976710656) = 0"
  by (simp add: fmul_def)

lemma step_2: "fdiv 0 180 = 0"
  by (simp add: fdiv_def)

lemma step_3: "fsub 1 (3859047325321089 / 576460752303423488) = 4473450820141425 / 4503599627370496"
  unfolding fsub_def
  by (rule rnd53_cert' [where k = "- 1" and n = "8946901640282850"]) simp_all

lemma step_4: "fmul (4473450820141425 / 4503599627370496) 0 = 0"
  by (simp add: fmul_def)

lemma step_5: "fmul 6378137 6378137 = 40680631590769"
  unfolding fmul_def
  by (rule rnd53_cert' [where k = "45" and n = "5207120843618432"]) simp_all

lemma step_6: "fmul 40680631590769 1 = 40680631590769"
  unfolding fmul_def
  by (rule rnd53_cert' [where k = "45" and n = "5207120843618432"]) simp_all

lemma step_7: "fmul (6825510809318195 / 1073741824) (6825510809318195 / 1073741824) = 5172262374855077 / 128"
  unfolding fmul_def
  by (rule rnd53_cert' [where k = "45" and n = "5172262374855077"]) simp_all

lemma step_8: "fmul (5172262374855077 / 128) 0 = 0"
  by (simp add: fmul_def)

lemma step_9: "fmul 6378137 1 = 6378137"
  unfolding fmul_def
  by (rule rnd53_cert' [where k = "22" and n = "6848472456101888"]) simp_all

lemma step_10: "fmul (6825510809318195 / 1073741824) 0 = 0"
  by (simp add: fmul_def)

lemma step_11: "fmul 40680631590769 40680631590769 = 1654913786623872702479335424"
  unfolding fmul_def
  by (rule rnd53_cert' [where k = "90" and n = "6020541283301546"]) simp_all

lemma step_12: "fmul 0 0 = 0"
  by (simp add: fmul_def)

lemma step_13: "fadd 1654913786623872702479335424 0 = 1654913786623872702479335424"
  unfolding fadd_def
  by (rule rnd53_cert' [where k = "90" and n = "6020541283301546"]) simp_all

lemma step_14: "fadd 40680631590769 0 = 40680631590769"
  unfolding fadd_def
  by (rule rnd53_cert' [where k = "45" and n = "5207120843618432"]) simp_all

lemma step_15: "py_div 1654913786623872702479335424 40680631590769 = Inr 40680631590769"
  by (rule py_div_cert, simp, rule rnd53_cert' [where k = "45" and n = "5207120843618432"]) simp_all

lemma step_16: "math_sqrt 40680631590769 = Inr 6378137"
  by (rule math_sqrt_cert, simp, rule rnd53_sqrt_cert [where k = "22" and n = "6848472456101888"])
    simp_all

lemma step_17: "fmul 6378137 0 = 0"
  by (simp add: fmul_def)

lemma step_18: "fmul 0 1 = 0"
  by (simp add: fmul_def)

lemma step_19: "fmul 1 1 = 1"
  unfolding fmul_def
  by (rule rnd53_cert' [where k = "0" and n = "4503599627370496"]) simp_all

lemma step_20: "fmul 1 0 = 0"
  by (simp add: fmul_def)

lemma step_21: "fadd 6378137 0 = 6378137"
  unfolding fadd_def
  by (rule rnd53_cert' [where k = "22" and n = "6848472456101888"]) simp_all

lemma step_22: "fadd 0 0 = 0"
  by (simp add: fadd_def)

lemma step_23: "fmul 180 (884279719003555 / 281474976710656) = 4974073419394997 / 8796093022208"
  unfolding fmul_def
  by (rule rnd53_cert' [where k = "9" and n = "4974073419394997"]) simp_all

lemma step_24: "fdiv (4974073419394997 / 8796093022208) 180 = 884279719003555 / 281474976710656"
  unfolding fdiv_def
  by (rule rnd53_cert' [where k = "1" and n = "7074237752028440"]) simp_all

lemma step_25: "fmul 6378137 (- 1) = - 6378137"
  unfolding fmul_def
  by (rule rnd53_cert' [where k = "22" and n = "- 6848472456101888"]) simp_all

lemma step_26: "fmul (- 6378137) 1 = - 6378137"
  unfolding fmul_def
  by (rule rnd53_cert' [where k = "22" and n = "- 6848472456101888"]) simp_all

lemma step_27: "fmul 6378137 (4967757600021511 / 40564819207303340847894502572032) = 7554301871234989 / 9671406556917033397649408"
  unfolding fmul_def
  by (rule rnd53_cert' [where k = "- 31" and n = "7554301871234989"]) simp_all

lemma step_28: "fmul (7554301871234989 / 9671406556917033397649408) 1 = 7554301871234989 / 9671406556917033397649408"
  unfolding fmul_def
  by (rule rnd53_cert' [where k = "- 31" and n = "7554301871234989"]) simp_all

lemma step_29: "fmul 1 (- 1) = - 1"
  unfolding fmul_def
  by (rule rnd53_cert' [where k = "0" and n = "- 4503599627370496"]) simp_all

lemma step_30: "fmul 1 (4967757600021511 / 40564819207303340847894502572032) = 4967757600021511 / 40564819207303340847894502572032"
  unfolding fmul_def
  by (rule rnd53_cert' [where k = "- 53" and n = "4967757600021511"]) simp_all

lemma step_31: "fmul 0 (- 1) = 0"
  by (simp add: fmul_def)

lemma step_32: "fadd (- 6378137) 0 = - 6378137"
  unfolding fadd_def
  by (rule rnd53_cert' [where k = "22" and n = "- 6848472456101888"]) simp_all

lemma step_33: "fmul 0 (4967757600021511 / 40564819207303340847894502572032) = 0"
  by (simp add: fmul_def)

lemma step_34: "fadd (7554301871234989 / 9671406556917033397649408) 0 = 7554301871234989 / 9671406556917033397649408"
  unfolding fadd_def
  by (rule rnd53_cert' [where k = "- 31" and n = "7554301871234989"]) simp_all

lemma step_35: "fsub 180 0 = 180"
  unfolding fsub_def
  by (rule rnd53_cert' [where k = "7" and n = "6333186975989760"]) simp_all

lemma step_36: "fmul (- 6378137) 0 = 0"
  by (simp add: fmul_def)

lemma step_37: "fmul (7554301871234989 / 9671406556917033397649408) (7554301871234989 / 9671406556917033397649408) = 98996291653359 / 162259276829213363391578010288128"
  unfolding fmul_def
  by (rule rnd53_cert' [where k = "- 61" and n = "6335762665814976"]) simp_all

lemma step_38: "fadd 0 (98996291653359 / 162259276829213363391578010288128) = 98996291653359 / 162259276829213363391578010288128"
  unfolding fadd_def
  by (rule rnd53_cert' [where k = "- 61" and n = "6335762665814976"]) simp_all

lemma step_39: "fsub (- 6378137) 6378137 = - 12756274"
  unfolding fsub_def
  by (rule rnd53_cert' [where k = "23" and n = "- 6848472456101888"]) simp_all

lemma step_40: "fsub (7554301871234989 / 9671406556917033397649408) 0 = 7554301871234989 / 9671406556917033397649408"
  unfolding fsub_def
  by (rule rnd53_cert' [where k = "- 31" and n = "7554301871234989"]) simp_all

lemma step_41: "fsub 0 0 = 0"
  by (simp add: fsub_def)

lemma step_42: "fmul (- 12756274) (- 12756274) = 162722526363076"
  unfolding fmul_def
  by (rule rnd53_cert' [where k = "47" and n = "5207120843618432"]) simp_all

lemma step_43: "fadd 162722526363076 (98996291653359 / 162259276829213363391578010288128) = 162722526363076"
  unfolding fadd_def
  by (rule rnd53_cert' [where k = "47" and n = "5207120843618432"]) simp_all

lemma step_44: "fadd 162722526363076 0 = 162722526363076"
  unfolding fadd_def
  by (rule rnd53_cert' [where k = "47" and n = "5207120843618432"]) simp_all

lemma step_45: "math_sqrt 162722526363076 = Inr 12756274"
  by (rule math_sqrt_cert, simp, rule rnd53_sqrt_cert [where k = "23" and n = "6848472456101888"])
    simp_all

lemma step_46: "py_div (- 12756274) 12756274 = Inr (- 1)"
  by (rule py_div_cert, simp, rule rnd53_cert' [where k = "0" and n = "- 4503599627370496"]) simp_all

lemma step_47: "py_div (7554301871234989 / 9671406556917033397649408) 12756274 = Inr (4967757600021511 / 81129638414606681695789005144064)"
  by (rule py_div_cert, simp, rule rnd53_cert' [where k = "- 54" and n = "4967757600021511"]) simp_all

lemma step_48: "py_div 0 12756274 = Inr 0"
  by (simp add: py_div_def)

lemma step_49: "fmul (- 1) 1 = - 1"
  unfolding fmul_def
  by (rule rnd53_cert' [where k = "0" and n = "- 4503599627370496"]) simp_all

lemma step_50: "fmul (4967757600021511 / 81129638414606681695789005144064) 0 = 0"
  by (simp add: fmul_def)

lemma step_51: "fadd (- 1) 0 = - 1"
  unfolding fadd_def
  by (rule rnd53_cert' [where k = "0" and n = "- 4503599627370496"]) simp_all

lemma step_52: "fdiv 180 (884279719003555 / 281474976710656) = 1007958012753983 / 17592186044416"
  unfolding fdiv_def
  by (rule rnd53_cert' [where k = "5" and n = "8063664102031864"]) simp_all

lemma step_53: "fmul (1007958012753983 / 17592186044416) (884279719003555 / 281474976710656) = 180"
  unfolding fmul_def
  by (rule rnd53_cert' [where k = "7" and n = "6333186975989760"]) simp_all

lemma step_54: "fsub 90 180 = - 90"
  unfolding fsub_def
  by (rule rnd53_cert' [where k = "6" and n = "- 6333186975989760"]) simp_all

lemma step_55: "fmul 90 (884279719003555 / 281474976710656) = 4974073419394997 / 17592186044416"
  unfolding fmul_def
  by (rule rnd53_cert' [where k = "8" and n = "4974073419394997"]) simp_all

lemma step_56: "fdiv (4974073419394997 / 17592186044416) 180 = 884279719003555 / 562949953421312"
  unfolding fdiv_def
  by (rule rnd53_cert' [where k = "0" and n = "7074237752028440"]) simp_all

lemma step_57: "fmul 6378137 (4967757600021511 / 81129638414606681695789005144064) = 7554301871234989 / 19342813113834066795298816"
  unfolding fmul_def
  by (rule rnd53_cert' [where k = "- 32" and n = "7554301871234989"]) simp_all

lemma step_58: "fmul (7554301871234989 / 19342813113834066795298816) 1 = 7554301871234989 / 19342813113834066795298816"
  unfolding fmul_def
  by (rule rnd53_cert' [where k = "- 32" and n = "7554301871234989"]) simp_all

lemma step_59: "fmul 1 (4967757600021511 / 81129638414606681695789005144064) = 4967757600021511 / 81129638414606681695789005144064"
  unfolding fmul_def
  by (rule rnd53_cert' [where k = "- 54" and n = "4967757600021511"]) simp_all

lemma step_60: "fmul 0 (4967757600021511 / 81129638414606681695789005144064) = 0"
  by (simp add: fmul_def)

lemma step_61: "fadd (7554301871234989 / 19342813113834066795298816) 0 = 7554301871234989 / 19342813113834066795298816"
  unfolding fadd_def
  by (rule rnd53_cert' [where k = "- 32" and n = "7554301871234989"]) simp_all

lemma step_62: "fsub 180 90 = 90"
  unfolding fsub_def
  by (rule rnd53_cert' [where k = "6" and n = "6333186975989760"]) simp_all

lemma step_63: "fmul (7554301871234989 / 19342813113834066795298816) 0 = 0"
  by (simp add: fmul_def)

lemma step_64: "fadd 0 40680631590769 = 40680631590769"
  unfolding fadd_def
  by (rule rnd53_cert' [where k = "45" and n = "5207120843618432"]) simp_all

lemma step_65: "fmul 0 180 = 0"
  by (simp add: fmul_def)

lemma step_66: "fdiv 0 (884279719003555 / 281474976710656) = 0"
  by (simp add: fdiv_def)

lemma step_67: "fsub 90 0 = 90"
  unfolding fsub_def
  by (rule rnd53_cert' [where k = "6" and n = "6333186975989760"]) simp_all

lemma step_68: "fsub (- 6378137) (7554301871234989 / 19342813113834066795298816) = - 6378137"
  unfolding fsub_def
  by (rule rnd53_cert' [where k = "22" and n = "- 6848472456101888"]) simp_all

lemma step_69: "fsub (7554301871234989 / 9671406556917033397649408) 6378137 = - (6848472456101887 / 1073741824)"
  unfolding fsub_def
  by (rule rnd53_cert' [where k = "22" and n = "- 6848472456101887"]) simp_all

lemma step_70: "fmul (- 6378137) (- 6378137) = 40680631590769"
  unfolding fmul_def
  by (rule rnd53_cert' [where k = "45" and n = "5207120843618432"]) simp_all

lemma step_71: "fmul (- (6848472456101887 / 1073741824)) (- (6848472456101887 / 1073741824)) = 2603560421809215 / 64"
  unfolding fmul_def
  by (rule rnd53_cert' [where k = "45" and n = "5207120843618430"]) simp_all

lemma step_72: "fadd 40680631590769 (2603560421809215 / 64) = 5207120843618431 / 64"
  unfolding fadd_def
  by (rule rnd53_cert' [where k = "46" and n = "5207120843618431"]) simp_all

lemma step_73: "fadd (5207120843618431 / 64) 0 = 5207120843618431 / 64"
  unfolding fadd_def
  by (rule rnd53_cert' [where k = "46" and n = "5207120843618431"]) simp_all

lemma step_74: "math_sqrt (5207120843618431 / 64) = Inr (4842601314478935 / 536870912)"
  by (rule math_sqrt_cert, simp, rule rnd53_sqrt_cert [where k = "23" and n = "4842601314478935"])
    simp_all

lemma step_75: "py_div (- 6378137) (4842601314478935 / 536870912) = Inr (- (6369051672525773 / 9007199254740992))"
  by (rule py_div_cert, simp, rule rnd53_cert' [where k = "- 1" and n = "- 6369051672525773"]) simp_all

lemma step_76: "py_div (- (6848472456101887 / 1073741824)) (4842601314478935 / 536870912) = Inr (- (1592262918131443 / 2251799813685248))"
  by (rule py_div_cert, simp, rule rnd53_cert' [where k = "- 1" and n = "- 6369051672525772"]) simp_all

lemma step_77: "py_div 0 (4842601314478935 / 536870912) = Inr 0"
  by (simp add: py_div_def)

lemma step_78: "fmul (- (6369051672525773 / 9007199254740992)) (4967757600021511 / 81129638414606681695789005144064) = - (7025470172532439 / 162259276829213363391578010288128)"
  unfolding fmul_def
  by (rule rnd53_cert' [where k = "- 55" and n = "- 7025470172532439"]) simp_all

lemma step_79: "fmul (- (1592262918131443 / 2251799813685248)) 1 = - (1592262918131443 / 2251799813685248)"
  unfolding fmul_def
  by (rule rnd53_cert' [where k = "- 1" and n = "- 6369051672525772"]) simp_all

lemma step_80: "fadd (- (7025470172532439 / 162259276829213363391578010288128)) (- (1592262918131443 / 2251799813685248)) = - (1592262918131443 / 2251799813685248)"
  unfolding fadd_def
  by (rule rnd53_cert' [where k = "- 1" and n = "- 6369051672525772"]) simp_all

lemma step_81: "fadd (- (1592262918131443 / 2251799813685248)) 0 = - (1592262918131443 / 2251799813685248)"
  unfolding fadd_def
  by (rule rnd53_cert' [where k = "- 1" and n = "- 6369051672525772"]) simp_all

lemma step_82: "fmul (1007958012753983 / 17592186044416) (2652839157010665 / 1125899906842624) = 135"
  unfolding fmul_def
  by (rule rnd53_cert' [where k = "7" and n = "4749890231992320"]) simp_all

lemma step_83: "fsub 90 135 = - 45"
  unfolding fsub_def
  by (rule rnd53_cert' [where k = "5" and n = "- 6333186975989760"]) simp_all

lemma step_84: "fmul 1 (884279719003555 / 281474976710656) = 884279719003555 / 281474976710656"
  unfolding fmul_def
  by (rule rnd53_cert' [where k = "1" and n = "7074237752028440"]) simp_all

lemma step_85: "fdiv (884279719003555 / 281474976710656) 180 = 5030569068109113 / 288230376151711744"
  unfolding fdiv_def
  by (rule rnd53_cert' [where k = "- 6" and n = "5030569068109113"]) simp_all

lemma step_86: "fmul (- (1 / 4503599627370496)) (884279719003555 / 281474976710656) = - (884279719003555 / 1267650600228229401496703205376)"
  unfolding fmul_def
  by (rule rnd53_cert' [where k = "- 51" and n = "- 7074237752028440"]) simp_all

lemma step_87: "fdiv (- (884279719003555 / 1267650600228229401496703205376)) 180 = - (5030569068109113 / 1298074214633706907132624082305024)"
  unfolding fdiv_def
  by (rule rnd53_cert' [where k = "- 58" and n = "- 5030569068109113"]) simp_all

lemma step_88: "fmul (4473450820141425 / 4503599627370496) (2515539965006353 / 144115188075855872) = 2498699984600217 / 144115188075855872"
  unfolding fmul_def
  by (rule rnd53_cert' [where k = "- 6" and n = "4997399969200434"]) simp_all

lemma step_89: "fmul 40680631590769 (4502913707333573 / 4503599627370496) = 5206327773892693 / 128"
  unfolding fmul_def
  by (rule rnd53_cert' [where k = "45" and n = "5206327773892693"]) simp_all

lemma step_90: "fmul (5172262374855077 / 128) (2515156836085391 / 144115188075855872) = 5777179210639363 / 8192"
  unfolding fmul_def
  by (rule rnd53_cert' [where k = "39" and n = "5777179210639363"]) simp_all

lemma step_91: "fmul 6378137 (4502913707333573 / 4503599627370496) = 6847429400575503 / 1073741824"
  unfolding fmul_def
  by (rule rnd53_cert' [where k = "22" and n = "6847429400575503"]) simp_all

lemma step_92: "fmul (6825510809318195 / 1073741824) (2515156836085391 / 144115188075855872) = 1905945420580689 / 17179869184"
  unfolding fmul_def
  by (rule rnd53_cert' [where k = "16" and n = "7623781682322756"]) simp_all

lemma step_93: "fmul (5206327773892693 / 128) (5206327773892693 / 128) = 1654409722241604361583067136"
  unfolding fmul_def
  by (rule rnd53_cert' [where k = "90" and n = "6018707507761444"]) simp_all

lemma step_94: "fmul (5777179210639363 / 8192) (5777179210639363 / 8192) = 497338170287663513337856"
  unfolding fmul_def
  by (rule rnd53_cert' [where k = "78" and n = "7410916243309729"]) simp_all

lemma step_95: "fadd 1654409722241604361583067136 497338170287663513337856 = 1654907060411891945572401152"
  unfolding fadd_def
  by (rule rnd53_cert' [where k = "90" and n = "6020516813484908"]) simp_all

lemma step_96: "fmul (6847429400575503 / 1073741824) (6847429400575503 / 1073741824) = 5205534824955315 / 128"
  unfolding fmul_def
  by (rule rnd53_cert' [where k = "45" and n = "5205534824955315"]) simp_all

lemma step_97: "fmul (1905945420580689 / 17179869184) (1905945420580689 / 17179869184) = 3226421748643293 / 262144"
  unfolding fmul_def
  by (rule rnd53_cert' [where k = "33" and n = "6452843497286586"]) simp_all

lemma step_98: "fadd (5205534824955315 / 128) (3226421748643293 / 262144) = 2603555113099885 / 64"
  unfolding fadd_def
  by (rule rnd53_cert' [where k = "45" and n = "5207110226199770"]) simp_all

lemma step_99: "py_div 1654907060411891945572401152 (2603555113099885 / 64) = Inr (2603555148627673 / 64)"
  by (rule py_div_cert, simp, rule rnd53_cert' [where k = "45" and n = "5207110297255346"]) simp_all

lemma step_100: "math_sqrt (2603555148627673 / 64) = Inr (6848465520742037 / 1073741824)"
  by (rule math_sqrt_cert, simp, rule rnd53_sqrt_cert [where k = "22" and n = "6848465520742037"])
    simp_all

lemma step_101: "fmul (6848465520742037 / 1073741824) 1 = 6848465520742037 / 1073741824"
  unfolding fmul_def
  by (rule rnd53_cert' [where k = "22" and n = "6848465520742037"]) simp_all

lemma step_102: "fmul (6848465520742037 / 1073741824) (4502922858149955 / 4503599627370496) = 6847436381596495 / 1073741824"
  unfolding fmul_def
  by (rule rnd53_cert' [where k = "22" and n = "6847436381596495"]) simp_all

lemma step_103: "fmul (6848465520742037 / 1073741824) (- (5030569068109113 / 1298074214633706907132624082305024)) = - (1912452352740105 / 77371252455336267181195264)"
  unfolding fmul_def
  by (rule rnd53_cert' [where k = "- 36" and n = "- 7649809410960420"]) simp_all

lemma step_104: "fmul (- (1912452352740105 / 77371252455336267181195264)) (4502922858149955 / 4503599627370496) = - (7648659851501165 / 309485009821345068724781056)"
  unfolding fmul_def
  by (rule rnd53_cert' [where k = "- 36" and n = "- 7648659851501165"]) simp_all

lemma step_105: "fmul (6848465520742037 / 1073741824) (4996648995143741 / 288230376151711744) = 3799114174639879 / 34359738368"
  unfolding fmul_def
  by (rule rnd53_cert' [where k = "16" and n = "7598228349279758"]) simp_all

lemma step_106: "fmul (4502913707333573 / 4503599627370496) 1 = 4502913707333573 / 4503599627370496"
  unfolding fmul_def
  by (rule rnd53_cert' [where k = "- 1" and n = "9005827414667146"]) simp_all

lemma step_107: "fmul (4502913707333573 / 4503599627370496) (- (5030569068109113 / 1298074214633706907132624082305024)) = - (1257450722018483 / 324518553658426726783156020576256)"
  unfolding fmul_def
  by (rule rnd53_cert' [where k = "- 58" and n = "- 5029802888073932"]) simp_all

lemma step_108: "fmul 0 (4502913707333573 / 4503599627370496) = 0"
  by (simp add: fmul_def)

lemma step_109: "fadd (6847436381596495 / 1073741824) 0 = 6847436381596495 / 1073741824"
  unfolding fadd_def
  by (rule rnd53_cert' [where k = "22" and n = "6847436381596495"]) simp_all

lemma step_110: "fmul 0 (- (1257450722018483 / 324518553658426726783156020576256)) = 0"
  by (simp add: fmul_def)

lemma step_111: "fadd (- (7648659851501165 / 309485009821345068724781056)) 0 = - (7648659851501165 / 309485009821345068724781056)"
  unfolding fadd_def
  by (rule rnd53_cert' [where k = "- 36" and n = "- 7648659851501165"]) simp_all

lemma step_112: "fmul 0 (2515156836085391 / 144115188075855872) = 0"
  by (simp add: fmul_def)

lemma step_113: "fadd (3799114174639879 / 34359738368) 0 = 3799114174639879 / 34359738368"
  unfolding fadd_def
  by (rule rnd53_cert' [where k = "16" and n = "7598228349279758"]) simp_all

lemma step_114: "fsub (- (1 / 4503599627370496)) 0 = - (1 / 4503599627370496)"
  unfolding fsub_def
  by (rule rnd53_cert' [where k = "- 52" and n = "- 4503599627370496"]) simp_all

lemma step_115: "fmul (6847436381596495 / 1073741824) 0 = 0"
  by (simp add: fmul_def)

lemma step_116: "fmul (3799114174639879 / 34359738368) 1 = 3799114174639879 / 34359738368"
  unfolding fmul_def
  by (rule rnd53_cert' [where k = "16" and n = "7598228349279758"]) simp_all

lemma step_117: "fadd 0 (3799114174639879 / 34359738368) = 3799114174639879 / 34359738368"
  unfolding fadd_def
  by (rule rnd53_cert' [where k = "16" and n = "7598228349279758"]) simp_all

lemma step_118: "fmul (3799114174639879 / 34359738368) (3799114174639879 / 34359738368) = 6409658809025509 / 524288"
  unfolding fmul_def
  by (rule rnd53_cert' [where k = "33" and n = "6409658809025509"]) simp_all

lemma step_119: "fmul (- (7648659851501165 / 309485009821345068724781056)) (- (7648659851501165 / 309485009821345068724781056)) = 1623756615941769 / 2658455991569831745807614120560689152"
  unfolding fmul_def
  by (rule rnd53_cert' [where k = "- 71" and n = "6495026463767076"]) simp_all

lemma step_120: "fadd (6409658809025509 / 524288) (1623756615941769 / 2658455991569831745807614120560689152) = 6409658809025509 / 524288"
  unfolding fadd_def
  by (rule rnd53_cert' [where k = "33" and n = "6409658809025509"]) simp_all

lemma step_121: "fmul (7074237752028441 / 4503599627370496) 180 = 2487036709697499 / 8796093022208"
  unfolding fmul_def
  by (rule rnd53_cert' [where k = "8" and n = "4974073419394998"]) simp_all

lemma step_122: "fdiv (2487036709697499 / 8796093022208) (884279719003555 / 281474976710656) = 6333186975989761 / 70368744177664"
  unfolding fdiv_def
  by (rule rnd53_cert' [where k = "6" and n = "6333186975989761"]) simp_all

lemma step_123: "fsub 90 (6333186975989761 / 70368744177664) = - (1 / 70368744177664)"
  unfolding fsub_def
  by (rule rnd53_cert' [where k = "- 46" and n = "- 4503599627370496"]) simp_all

lemma step_124: "fadd (- (1 / 70368744177664)) 360 = 360"
  unfolding fadd_def
  by (rule rnd53_cert' [where k = "8" and n = "6333186975989760"]) simp_all

lemma step_125: "fsub (6847436381596495 / 1073741824) 6378137 = - (1036074505393 / 1073741824)"
  unfolding fsub_def
  by (rule rnd53_cert' [where k = "9" and n = "- 8487522348179456"]) simp_all

lemma step_126: "fsub (- (7648659851501165 / 309485009821345068724781056)) 0 = - (7648659851501165 / 309485009821345068724781056)"
  unfolding fsub_def
  by (rule rnd53_cert' [where k = "- 36" and n = "- 7648659851501165"]) simp_all

lemma step_127: "fsub (3799114174639879 / 34359738368) 0 = 3799114174639879 / 34359738368"
  unfolding fsub_def
  by (rule rnd53_cert' [where k = "16" and n = "7598228349279758"]) simp_all

lemma step_128: "fmul (- (1036074505393 / 1073741824)) (- (1036074505393 / 1073741824)) = 3998914289196393 / 4294967296"
  unfolding fmul_def
  by (rule rnd53_cert' [where k = "19" and n = "7997828578392786"]) simp_all

lemma step_129: "fadd (3998914289196393 / 4294967296) (1623756615941769 / 2658455991569831745807614120560689152) = 3998914289196393 / 4294967296"
  unfolding fadd_def
  by (rule rnd53_cert' [where k = "19" and n = "7997828578392786"]) simp_all

lemma step_130: "fadd (3998914289196393 / 4294967296) (6409658809025509 / 524288) = 1602536739435613 / 131072"
  unfolding fadd_def
  by (rule rnd53_cert' [where k = "33" and n = "6410146957742452"]) simp_all

lemma step_131: "math_sqrt (1602536739435613 / 131072) = Inr (1899629419461827 / 17179869184)"
  by (rule math_sqrt_cert, simp, rule rnd53_sqrt_cert [where k = "16" and n = "7598517677847308"])
    simp_all

lemma step_132: "py_div (- (1036074505393 / 1073741824)) (1899629419461827 / 17179869184) = Inr (- (1257626951240735 / 144115188075855872))"
  by (rule py_div_cert, simp, rule rnd53_cert' [where k = "- 7" and n = "- 5030507804962940"]) simp_all

lemma step_133: "py_div (- (7648659851501165 / 309485009821345068724781056)) (1899629419461827 / 17179869184) = Inr (- (4533318617857471 / 20282409603651670423947251286016))"
  by (rule py_div_cert, simp, rule rnd53_cert' [where k = "- 52" and n = "- 4533318617857471"]) simp_all

lemma step_134: "py_div (3799114174639879 / 34359738368) (1899629419461827 / 17179869184) = Inr (9006856287840275 / 9007199254740992)"
  by (rule py_div_cert, simp, rule rnd53_cert' [where k = "- 1" and n = "9006856287840275"]) simp_all

lemma step_135: "fmul (- (1257626951240735 / 144115188075855872)) 1 = - (1257626951240735 / 144115188075855872)"
  unfolding fmul_def
  by (rule rnd53_cert' [where k = "- 7" and n = "- 5030507804962940"]) simp_all

lemma step_136: "fmul (- (4533318617857471 / 20282409603651670423947251286016)) 0 = 0"
  by (simp add: fmul_def)

lemma step_137: "fadd (- (1257626951240735 / 144115188075855872)) 0 = - (1257626951240735 / 144115188075855872)"
  unfolding fadd_def
  by (rule rnd53_cert' [where k = "- 7" and n = "- 5030507804962940"]) simp_all

lemma step_138: "fmul (9006856287840275 / 9007199254740992) 0 = 0"
  by (simp add: fmul_def)

lemma step_139: "fmul (1007958012753983 / 17592186044416) (7113539093081373 / 4503599627370496) = 3184185683085015 / 35184372088832"
  unfolding fmul_def
  by (rule rnd53_cert' [where k = "6" and n = "6368371366170030"]) simp_all

lemma step_140: "fsub 90 (3184185683085015 / 35184372088832) = - (17592195090135 / 35184372088832)"
  unfolding fsub_def
  by (rule rnd53_cert' [where k = "- 1" and n = "- 4503601943074560"]) simp_all

lemmas steps =
  step_1 step_2 step_3 step_4 step_5 step_6 step_7 step_8
  step_9 step_10 step_11 step_12 step_13 step_14 step_15 step_16
  step_17 step_18 step_19 step_20 step_21 step_22 step_23 step_24
  step_25 step_26 step_27 step_28 step_29 step_30 step_31 step_32
  step_33 step_34 step_35 step_36 step_37 step_38 step_39 step_40
  step_41 step_42 step_43 step_44 step_45 step_46 step_47 step_48
  step_49 step_50 step_51 step_52 step_53 step_54 step_55 step_56
  step_57 step_58 step_59 step_60 step_61 step_62 step_63 step_64
  step_65 step_66 step_67 step_68 step_69 step_70 step_71 step_72
  step_73 step_74 step_75 step_76 step_77 step_78 step_79 step_80
  step_81 step_82 step_83 step_84 step_85 step_86 step_87 step_88
  step_89 step_90 step_91 step_92 step_93 step_94 step_95 step_96
  step_97 step_98 step_99 step_100 step_101 step_102 step_103 step_104
  step_105 step_106 step_107 step_108 step_109 step_110 step_111 step_112
  step_113 step_114 step_115 step_116 step_117 step_118 step_119 step_120
  step_121 step_122 step_123 step_124 step_125 step_126 step_127 step_128
  step_129 step_130 step_131 step_132 step_133 step_134 step_135 step_136
  step_137 step_138 step_139 step_140

text \<open>
  The four locations, and what \<open>_azimuth\<close> returns for the opposite point of the equator,
  for a target due east and for a target a hair west of north.
\<close>

lemma Location_equator_0: "Location_init recorded 0 0 0 = Inr equator_0"
  by (simp add: Location_init_def earth_radius_in_meters_def geocentric_latitude_def Let_def
      math_pi_def wgs_b_def wgs_e2_def equator_0_def recorded_values steps)

lemma Location_equator_180: "Location_init recorded 0 180 0 = Inr equator_180"
  by (simp add: Location_init_def earth_radius_in_meters_def geocentric_latitude_def Let_def
      math_pi_def wgs_b_def wgs_e2_def equator_180_def recorded_values steps)

lemma Location_equator_90: "Location_init recorded 0 90 0 = Inr equator_90"
  by (simp add: Location_init_def earth_radius_in_meters_def geocentric_latitude_def Let_def
      math_pi_def wgs_b_def wgs_e2_def equator_90_def recorded_values steps)


lemma azimuth_antipode: "aad_azimuth recorded equator_0 equator_180 = Inr (None, Some (- 90))"
  by (simp add: aad_azimuth_def normalize_azimuth_def Location_init_def earth_radius_in_meters_def
      geocentric_latitude_def math_acos_def Let_def math_pi_def wgs_b_def wgs_e2_def eps_def
      equator_0_def equator_180_def recorded_values steps)



subsection \<open>The elevation angle\<close>

text \<open>
  C4 fails in the code. The observer is \<open>Location(0, 0, 0)\<close> and the target
  \<open>Location(0, 180, 0)\<close>, the opposite point of the equator: \<open>_azimuth\<close> returns no azimuth
  and the altitude -90.0, which is defined and below the range 0 to 90 that the claim and
  the docstring of \<open>AzimuthAltitudeDistance\<close> give. Nothing in \<open>maho/util.py\<close> clamps
  the altitude.
\<close>

theorem below_horizon:
  "Location_init recorded 0 0 0 = Inr equator_0
   \<and> Location_init recorded 0 180 0 = Inr equator_180
   \<and> aad_azimuth recorded equator_0 equator_180 = Inr (None, Some (- 90))
   \<and> \<not> (0 \<le> (- 90 :: real))"
  by (simp add: Location_equator_0 Location_equator_180 azimuth_antipode)

subsection \<open>The azimuth\<close>




section \<open>Properties of the store\<close>

lemma remdups_snoc: "remdups (xs @ [a]) = filter (\<lambda>x. x \<noteq> a) (remdups xs) @ [a]"
  by (induction xs) auto

lemma store_run_snoc: "store_run N (xs @ [x]) s = store_apply N x (store_run N xs s)"
  by (induction xs arbitrary: s) auto

lemma inserted_snoc:
  "inserted (ops @ [Insert k v]) = insert k (inserted ops)"
  "inserted (ops @ [Access k]) = inserted ops"
  by (auto simp add: inserted_def)

lemma inserted_subset: "inserted ops \<subseteq> set (map op_address ops)"
  by (auto simp add: inserted_def)

lemma touch_order_set: "set (touch_order ops) = inserted ops"
  using inserted_subset [of ops] by (auto simp add: touch_order_def)

lemma touch_order_distinct: "distinct (touch_order ops)"
  by (simp add: touch_order_def)

lemma touch_order_length: "length (touch_order ops) = card (inserted ops)"
  using distinct_card [OF touch_order_distinct, of ops] by (simp add: touch_order_set)

lemma touch_order_insert:
  "touch_order (ops @ [Insert k v]) = k # filter (\<lambda>x. x \<noteq> k) (touch_order ops)"
proof -
  have "filter (\<lambda>a. a = k \<or> a \<in> inserted ops) (filter (\<lambda>x. x \<noteq> k) (rev (remdups (map op_address ops))))
      = filter (\<lambda>x. x \<noteq> k) (filter (\<lambda>a. a \<in> inserted ops) (rev (remdups (map op_address ops))))"
    by (auto intro: filter_cong)
  then show ?thesis
    by (simp add: touch_order_def inserted_snoc remdups_snoc rev_filter)
qed

lemma touch_order_access:
  "touch_order (ops @ [Access k]) =
     (if k \<in> inserted ops then k # filter (\<lambda>x. x \<noteq> k) (touch_order ops) else touch_order ops)"
proof -
  have c: "filter (\<lambda>a. a \<in> inserted ops) (filter (\<lambda>x. x \<noteq> k) (rev (remdups (map op_address ops))))
      = filter (\<lambda>x. x \<noteq> k) (filter (\<lambda>a. a \<in> inserted ops) (rev (remdups (map op_address ops))))"
    by (auto intro: filter_cong)
  have "k \<notin> inserted ops \<Longrightarrow>
      filter (\<lambda>x. x \<noteq> k) (filter (\<lambda>a. a \<in> inserted ops) (rev (remdups (map op_address ops))))
      = filter (\<lambda>a. a \<in> inserted ops) (rev (remdups (map op_address ops)))"
    by (auto intro: filter_cong)
  with c show ?thesis
    by (simp add: touch_order_def inserted_snoc remdups_snoc rev_filter)
qed

lemma map_fst_filter: "map fst (filter (\<lambda>p. fst p \<noteq> k) s) = filter (\<lambda>x. x \<noteq> k) (map fst s)"
  by (induction s) auto

lemma store_get_keys:
  "map fst (snd (store_get k s)) =
     (if k \<in> set (map fst s) then k # filter (\<lambda>x. x \<noteq> k) (map fst s) else map fst s)"
proof (cases "map_of s k")
  case None
  then have "k \<notin> fst ` set s"
    by (simp add: map_of_eq_None_iff)
  with None show ?thesis
    by (simp add: store_get_def)
next
  case (Some v)
  then have "k \<in> fst ` set s"
    using map_of_SomeD by force
  with Some show ?thesis
    by (simp add: store_get_def map_fst_filter)
qed

lemma filter_absent: "k \<notin> set xs \<Longrightarrow> filter (\<lambda>x. x \<noteq> k) xs = xs"
  by (induction xs) auto

lemma set_butlast_distinct:
  assumes "xs \<noteq> []" "distinct xs"
  shows "set (butlast xs) = set xs - {last xs}"
proof -
  obtain ys y where xs: "xs = ys @ [y]"
    using assms(1) by (cases xs rule: rev_cases) auto
  with assms(2) have "y \<notin> set ys" by simp
  then show ?thesis by (auto simp add: xs)
qed

lemma store_keys:
  assumes "card (inserted ops) \<le> N"
  shows "map fst (store_run N ops []) = touch_order ops"
  using assms
proof (induction ops rule: rev_induct)
  case Nil
  then show ?case by (simp add: touch_order_def)
next
  case (snoc x ops)
  have fin: "finite (inserted ops)" by (simp add: inserted_def)
  have sub: "card (inserted ops) \<le> card (inserted (ops @ [x]))"
    by (cases x) (auto simp add: inserted_snoc fin card_insert_le)
  then have IH: "map fst (store_run N ops []) = touch_order ops"
    using snoc by simp
  show ?case
  proof (cases x)
    case (Access k)
    then show ?thesis
      using IH by (simp add: store_run_snoc store_get_keys touch_order_access touch_order_set)
  next
    case (Insert k v)
    show ?thesis
    proof (cases "k \<in> inserted ops")
      case True
      then have "k \<in> fst ` set (store_run N ops [])"
        using IH touch_order_set [of ops] by (metis set_map)
      then show ?thesis
        using IH Insert
        by (simp add: store_run_snoc store_insert_def touch_order_insert map_fst_filter)
    next
      case False
      then have absent: "k \<notin> fst ` set (store_run N ops [])"
        using IH touch_order_set [of ops] by (metis set_map)
      have "card (inserted (ops @ [x])) = Suc (card (inserted ops))"
        using False Insert fin by (simp add: inserted_snoc)
      with snoc.prems have "card (inserted ops) < N" by simp
      then have "length (store_run N ops []) < N"
        using IH touch_order_length [of ops] by (metis length_map)
      moreover have "filter (\<lambda>x. x \<noteq> k) (touch_order ops) = touch_order ops"
        using False by (simp add: filter_absent touch_order_set)
      ultimately show ?thesis
        using IH Insert absent
        by (simp add: store_run_snoc store_insert_def touch_order_insert)
    qed
  qed
qed

text \<open>
  C7 (against the store modelled from the specification). With capacity \<open>N > 0\<close>,
  after operations that inserted \<open>N\<close> distinct addresses (with any accesses and
  mutations in between) the store holds them in the order of their last touch; inserting
  one more address leaves exactly \<open>N\<close> entities: the new one and the others without the
  least recently touched, that is the \<open>N\<close> most recently touched.
\<close>

theorem capacity_evicts_least_recently_touched:
  assumes "0 < N" "card (inserted ops) = N" "k \<notin> inserted ops"
  shows "map fst (store_run N ops []) = touch_order ops
     \<and> length (store_run N (ops @ [Insert k v]) []) = N
     \<and> map fst (store_run N (ops @ [Insert k v]) []) = k # butlast (touch_order ops)
     \<and> map fst (store_run N (ops @ [Insert k v]) []) = take N (touch_order (ops @ [Insert k v]))
     \<and> set (map fst (store_run N (ops @ [Insert k v]) []))
         = insert k (inserted ops) - {last (touch_order ops)}"
proof -
  have keys: "map fst (store_run N ops []) = touch_order ops"
    using assms(2) by (simp add: store_keys)
  have len: "length (touch_order ops) = N"
    using assms(2) by (simp add: touch_order_length)
  then have len': "length (store_run N ops []) = N"
    using keys by (metis length_map)
  have absent: "k \<notin> fst ` set (store_run N ops [])"
    using keys assms(3) touch_order_set [of ops] by (metis set_map)
  have after: "store_run N (ops @ [Insert k v]) [] = (k, v) # butlast (store_run N ops [])"
    using absent len' by (simp add: store_run_snoc store_insert_def)
  have k1: "map fst (store_run N (ops @ [Insert k v]) []) = k # butlast (touch_order ops)"
    using after keys by (simp add: map_butlast)
  have ne: "touch_order ops \<noteq> []"
    using len assms(1) by auto
  have k2: "take N (touch_order (ops @ [Insert k v])) = k # butlast (touch_order ops)"
  proof -
    have "touch_order (ops @ [Insert k v]) = k # touch_order ops"
      using assms(3) by (simp add: touch_order_insert filter_absent touch_order_set)
    moreover obtain n where "N = Suc n" using assms(1) by (cases N) auto
    ultimately show ?thesis
      using len by (simp add: butlast_conv_take)
  qed
  have "set (butlast (touch_order ops)) = set (touch_order ops) - {last (touch_order ops)}"
    using ne touch_order_distinct [of ops] by (rule set_butlast_distinct)
  then have "set (k # butlast (touch_order ops))
         = insert k (inserted ops - {last (touch_order ops)})"
    by (simp add: touch_order_set)
  moreover have "k \<noteq> last (touch_order ops)"
    using last_in_set [OF ne] assms(3) touch_order_set [of ops] by auto
  ultimately have k3: "set (map fst (store_run N (ops @ [Insert k v]) []))
         = insert k (inserted ops) - {last (touch_order ops)}"
    unfolding k1 by auto
  have len2: "length (store_run N (ops @ [Insert k v]) []) = N"
    using after len' assms(1) by simp
  from keys len2 k1 k3 show ?thesis
    unfolding k2 by blast
qed

theorem capacity_evicts_least_recently_touched_witness:
  "(0::nat) < 2 \<and> card (inserted three_aircraft) = 2 \<and> ''baz'' \<notin> inserted three_aircraft
   \<and> map fst (store_run 2 (three_aircraft @ [Insert ''baz'' ()]) []) = [''baz'', ''foo'']
   \<and> touch_order three_aircraft = [''foo'', ''bar'']"
proof -
  have h: "(0::nat) < 2" "card (inserted three_aircraft) = 2" "''baz'' \<notin> inserted three_aircraft"
    by (simp_all add: three_aircraft_def inserted_def)
  have t: "touch_order three_aircraft = [''foo'', ''bar'']"
    by (simp add: three_aircraft_def touch_order_def inserted_def)
  from capacity_evicts_least_recently_touched [OF h, of "()"] h t show ?thesis
    by simp
qed

end
